theory Spec2Isabelle
  imports Complex_Main "HOL-Library.AList"
begin

section \<open>The ISO-20022 statement parser of ofxstatement-iso20022\<close>

text \<open>
  A shallow embedding of \<^verbatim>\<open>src/ofxstatement/plugins/iso20022.py\<close>. Every exception
  the Python code can raise is a value of \<open>error\<close>; a function that can raise returns
  \<open>error + 'a\<close>, with \<open>Inl\<close> for the exception. The only exception the plugin raises
  on purpose is \<open>exceptions.ParseError(line, message)\<close>; the others are the built-in
  exceptions of Python that escape from attribute access on \<open>None\<close>, from a missing
  dictionary key, from \<open>float\<close>, \<open>strptime\<close> and tuple unpacking, and from \<open>assert\<close>.
\<close>

datatype error =
    ParseError int string
  | AttributeError
  | KeyError string
  | TypeError
  | ValueError
  | AssertionError

text \<open>
  \<open>fails_with_ParseError\<close> holds when a computation ended in the plugin's own
  \<open>ParseError\<close>, and not in one of the built-in exceptions.
\<close>

definition fails_with_ParseError :: "error + 'a \<Rightarrow> bool" where
  "fails_with_ParseError r =
     (case r of Inl (ParseError _ _) \<Rightarrow> True | _ \<Rightarrow> False)"

subsection \<open>XML elements and path lookup\<close>

text \<open>
  An \<open>xml.etree.ElementTree.Element\<close>: its tag in Clark notation (\<open>{namespace}local\<close>),
  its attributes, its text (\<open>None\<close> for an element without text; the selector is
  \<open>etext\<close>) and its children in document order.
\<close>

datatype element =
  Element (tag: string) (attrib: "(string \<times> string) list") (etext: "string option")
    (children: "element list")

text \<open>\<open>Element.get(key)\<close>: the attribute's value, or \<open>None\<close>.\<close>

definition get_attr :: "element \<Rightarrow> string \<Rightarrow> string option" where
  "get_attr e k = map_of (attrib e) k"

text \<open>\<open>str.split(sep)\<close> for a one-character separator.\<close>

fun split_on :: "char \<Rightarrow> string \<Rightarrow> string list" where
  "split_on c [] = [[]]"
| "split_on c (x # xs) =
     (if x = c then [] # split_on c xs
      else (case split_on c xs of
              [] \<Rightarrow> [[x]]
            | p # ps \<Rightarrow> (x # p) # ps))"

text \<open>
  The prefix \<open>s:\<close> of a path step is resolved through \<open>self.xmlns\<close> to the
  namespace \<open>ns\<close>, which gives the Clark-notation tag the step matches.
\<close>

definition qname :: "string \<Rightarrow> string \<Rightarrow> string" where
  "qname ns t = ''{'' @ ns @ ''}'' @ t"

text \<open>
  \<open>_toxpath\<close> turns \<open>'A/B'\<close> into \<open>'./s:A/s:B'\<close>. A path is kept as the list of
  the qualified tags of its steps, after the leading \<open>.\<close>.
\<close>

definition toxpath :: "string \<Rightarrow> string \<Rightarrow> string list" where
  "toxpath ns spath = map (qname ns) (split_on (CHR ''/'') spath)"

text \<open>
  \<open>Element.findall(path)\<close> for a path of child steps: each step selects, in document
  order, the children with the step's tag of every element selected so far.
  \<open>Element.find(path)\<close> is the first of them, or \<open>None\<close>.
\<close>

fun et_findall :: "element \<Rightarrow> string list \<Rightarrow> element list" where
  "et_findall e [] = [e]"
| "et_findall e (t # ts) =
     concat (map (\<lambda>c. et_findall c ts) (filter (\<lambda>c. tag c = t) (children e)))"

definition et_find :: "element \<Rightarrow> string list \<Rightarrow> element option" where
  "et_find e p = (case et_findall e p of [] \<Rightarrow> None | x # _ \<Rightarrow> Some x)"

definition find_x :: "string \<Rightarrow> element \<Rightarrow> string \<Rightarrow> element option" where
  "find_x ns tree spath = et_find tree (toxpath ns spath)"

definition findall_x :: "string \<Rightarrow> element \<Rightarrow> string \<Rightarrow> element list" where
  "findall_x ns tree spath = et_findall tree (toxpath ns spath)"

subsection \<open>Dates\<close>

text \<open>
  \<open>_notimezone\<close>. The argument is the text of a node, so it can be \<open>None\<close>, and then
  \<open>"+" not in dt\<close> raises TypeError. \<open>dt, tz = dt.split("+")\<close> raises ValueError
  unless the split has exactly two parts.
\<close>

definition notimezone :: "string option \<Rightarrow> error + string" where
  "notimezone dt =
     (case dt of
        None \<Rightarrow> Inl TypeError
      | Some s \<Rightarrow>
          if CHR ''+'' \<notin> set s then Inr s
          else (case split_on (CHR ''+'') s of
                  [d, tz] \<Rightarrow> Inr d
                | _ \<Rightarrow> Inl ValueError))"

text \<open>
  \<open>datetime.datetime.strptime\<close> is a parameter \<open>strptime\<close> of the model: it takes the
  text and the format and gives the timestamp, or \<open>None\<close> where Python raises
  ValueError because the text does not match the format.
\<close>

definition DATE_FORMAT :: string where
  "DATE_FORMAT = ''%Y-%m-%d''"

definition DATETIME_FORMAT :: string where
  "DATETIME_FORMAT = ''%Y-%m-%dT%H:%M:%S''"

text \<open>
  \<open>_parse_date\<close>. The result \<open>Inr None\<close> is Python's \<open>return None\<close>; the \<open>assert\<close>
  raises AssertionError.
\<close>

definition parse_date ::
  "(string \<Rightarrow> string \<Rightarrow> 'd option) \<Rightarrow> string \<Rightarrow> element option \<Rightarrow> error + 'd option" where
  "parse_date strptime ns dtnode =
     (case dtnode of
        None \<Rightarrow> Inr None
      | Some n \<Rightarrow>
          (let dt = find_x ns n ''Dt'';
               dttm = find_x ns n ''DtTm''
           in case dt of
                Some d \<Rightarrow>
                  (case notimezone (etext d) of
                     Inl e \<Rightarrow> Inl e
                   | Inr dtvalue \<Rightarrow>
                       (case strptime dtvalue DATE_FORMAT of
                          None \<Rightarrow> Inl ValueError
                        | Some r \<Rightarrow> Inr (Some r)))
              | None \<Rightarrow>
                  (case dttm of
                     None \<Rightarrow> Inl AssertionError
                   | Some t \<Rightarrow>
                       (case notimezone (etext t) of
                          Inl e \<Rightarrow> Inl e
                        | Inr dtvalue \<Rightarrow>
                            (case strptime dtvalue DATETIME_FORMAT of
                               None \<Rightarrow> Inl ValueError
                             | Some r \<Rightarrow> Inr (Some r))))))"

subsection \<open>Amounts\<close>

text \<open>
  \<open>_parse_amount\<close> is \<open>float(amtnode.text)\<close>. Python's \<open>float\<close> on a string is a
  parameter \<open>pyfloat\<close> of the model, with \<open>None\<close> where \<open>float\<close> raises ValueError;
  \<open>float(None)\<close> raises TypeError. The type \<open>'f\<close> of the numbers only needs the
  negation that \<open>_parse_line\<close> applies.
\<close>

definition parse_amount :: "(string \<Rightarrow> 'f option) \<Rightarrow> element \<Rightarrow> error + 'f" where
  "parse_amount pyfloat amtnode =
     (case etext amtnode of
        None \<Rightarrow> Inl TypeError
      | Some s \<Rightarrow> (case pyfloat s of None \<Rightarrow> Inl ValueError | Some v \<Rightarrow> Inr v))"

subsection \<open>The statement and its lines\<close>

text \<open>
  The fields of \<open>ofxstatement.statement.StatementLine\<close> and \<open>Statement\<close> that the
  parser assigns. Every field of a fresh object is \<open>None\<close>, and \<open>lines\<close> is empty.
\<close>

record ('f, 'd) statement_line =
  payee :: "string option"
  amount :: "'f option"
  date :: "'d option"
  date_user :: "'d option"
  refnum :: "string option"
  memo :: "string option"

record ('f, 'd) statement =
  currency :: "string option"
  bank_id :: "string option"
  account_id :: "string option"
  start_balance :: "'f option"
  start_date :: "'d option"
  end_balance :: "'f option"
  end_date :: "'d option"
  lines :: "('f, 'd) statement_line list"

definition new_StatementLine :: "('f, 'd) statement_line" where
  "new_StatementLine =
     \<lparr>payee = None, amount = None, date = None, date_user = None, refnum = None,
      memo = None\<rparr>"

definition new_Statement :: "('f, 'd) statement" where
  "new_Statement =
     \<lparr>currency = None, bank_id = None, account_id = None, start_balance = None,
      start_date = None, end_balance = None, end_date = None, lines = []\<rparr>"

definition CD_CREDIT :: string where
  "CD_CREDIT = ''CRDT''"

definition CD_DEBIT :: string where
  "CD_DEBIT = ''DBIT''"

subsection \<open>One entry\<close>

text \<open>
  \<open>_parse_line\<close>, in the order of the source: the indicator's text (AttributeError
  when the node is missing), the amount node and its \<open>Ccy\<close> attribute (AttributeError
  when the node is missing), the currency test (\<open>Inr None\<close> is \<open>return None\<close>), the
  amount, sign and payee, the two dates, the reference (AttributeError when neither
  node is found) and the memo.
\<close>

definition parse_line ::
  "(string \<Rightarrow> 'f::uminus option) \<Rightarrow> (string \<Rightarrow> string \<Rightarrow> 'd option) \<Rightarrow> string \<Rightarrow>
   ('f, 'd) statement \<Rightarrow> element \<Rightarrow> error + ('f, 'd) statement_line option" where
  "parse_line pyfloat strptime ns st ntry =
     (case find_x ns ntry ''CdtDbtInd'' of
        None \<Rightarrow> Inl AttributeError
      | Some ind \<Rightarrow>
         (let crdeb = etext ind in
          (case find_x ns ntry ''Amt'' of
             None \<Rightarrow> Inl AttributeError
           | Some amtnode \<Rightarrow>
              (let amt_ccy = get_attr amtnode ''Ccy'' in
               if amt_ccy \<noteq> currency st then Inr None
               else
                (case parse_amount pyfloat amtnode of
                   Inl e \<Rightarrow> Inl e
                 | Inr amt0 \<Rightarrow>
                    (let amt = (if crdeb = Some CD_DEBIT then - amt0 else amt0);
                         payee_node =
                           (if crdeb = Some CD_DEBIT
                            then find_x ns ntry ''NtryDtls/TxDtls/RltdPties/Cdtr/Nm''
                            else find_x ns ntry ''NtryDtls/TxDtls/RltdPties/Dbtr/Nm'');
                         sline1 = new_StatementLine
                           \<lparr>payee := (case payee_node of None \<Rightarrow> None | Some p \<Rightarrow> etext p),
                            amount := Some amt\<rparr>
                     in
                     (case parse_date strptime ns (find_x ns ntry ''ValDt'') of
                        Inl e \<Rightarrow> Inl e
                      | Inr d \<Rightarrow>
                         (case parse_date strptime ns (find_x ns ntry ''BookgDt'') of
                            Inl e \<Rightarrow> Inl e
                          | Inr du \<Rightarrow>
                             (let sline2 = sline1\<lparr>date := d, date_user := du\<rparr>;
                                  svcref0 = find_x ns ntry ''NtryDtls/TxDtls/Refs/AcctSvcrRef'';
                                  svcref =
                                    (if svcref0 = None then find_x ns ntry ''AcctSvcrRef''
                                     else svcref0)
                              in
                              (case svcref of
                                 None \<Rightarrow> Inl AttributeError
                               | Some r \<Rightarrow>
                                  (let sline3 = sline2\<lparr>refnum := etext r\<rparr>;
                                       rmtinf = find_x ns ntry ''NtryDtls/TxDtls/RmtInf/Ustrd'';
                                       addinf = find_x ns ntry ''AddtlNtryInf''
                                   in
                                   Inr (Some
                                     (case rmtinf of
                                        Some m \<Rightarrow> sline3\<lparr>memo := etext m\<rparr>
                                      | None \<Rightarrow>
                                         (case addinf of
                                            Some a \<Rightarrow> sline3\<lparr>memo := etext a\<rparr>
                                          | None \<Rightarrow> sline3))))))))))))))"

text \<open>The amount of the line an entry gave, if it gave one.\<close>

definition line_amount :: "error + ('f, 'd) statement_line option \<Rightarrow> 'f option" where
  "line_amount r = (case r of Inr (Some sline) \<Rightarrow> amount sline | _ \<Rightarrow> None)"

text \<open>
  The currency test of \<open>_parse_line\<close>, \<open>amt_ccy != self.statement.currency\<close>, as a
  predicate on the entry.
\<close>

definition foreign_currency :: "string \<Rightarrow> ('f, 'd) statement \<Rightarrow> element \<Rightarrow> bool" where
  "foreign_currency ns st ntry =
     (case find_x ns ntry ''Amt'' of
        None \<Rightarrow> False
      | Some amtnode \<Rightarrow> get_attr amtnode ''Ccy'' \<noteq> currency st)"

text \<open>
  \<open>_parse_lines\<close>: the loop over the entries, appending every line that is not
  \<open>None\<close>; an exception in one entry ends the parse.
\<close>

fun parse_lines_loop ::
  "(string \<Rightarrow> 'f::uminus option) \<Rightarrow> (string \<Rightarrow> string \<Rightarrow> 'd option) \<Rightarrow> string \<Rightarrow>
   ('f, 'd) statement \<Rightarrow> element list \<Rightarrow> error + ('f, 'd) statement" where
  "parse_lines_loop pyfloat strptime ns st [] = Inr st"
| "parse_lines_loop pyfloat strptime ns st (ntry # rest) =
     (case parse_line pyfloat strptime ns st ntry of
        Inl e \<Rightarrow> Inl e
      | Inr None \<Rightarrow> parse_lines_loop pyfloat strptime ns st rest
      | Inr (Some sline) \<Rightarrow>
          parse_lines_loop pyfloat strptime ns (st\<lparr>lines := lines st @ [sline]\<rparr>) rest)"

definition parse_lines ::
  "(string \<Rightarrow> 'f::uminus option) \<Rightarrow> (string \<Rightarrow> string \<Rightarrow> 'd option) \<Rightarrow> string \<Rightarrow>
   element \<Rightarrow> ('f, 'd) statement \<Rightarrow> error + ('f, 'd) statement" where
  "parse_lines pyfloat strptime ns tree st =
     parse_lines_loop pyfloat strptime ns st (findall_x ns tree ''BkToCstmrStmt/Stmt/Ntry'')"

subsection \<open>The statement's properties\<close>

text \<open>
  The loop over the balance entries of \<open>_parse_statement_properties\<close>. The dictionaries
  \<open>bal_amts\<close> and \<open>bal_dates\<close> are association lists from the code's text (which can
  be \<open>None\<close>) to the amount and the date; \<open>AList.update\<close> is the item assignment.
  \<open>amt.get\<close> raises AttributeError when there is no amount node. In
  \<open>bal_amts[cd.text] = self._parse_amount(amt)\<close> Python evaluates the right-hand side
  first, so a bad amount raises before a missing code node does.
\<close>

fun bal_loop ::
  "(string \<Rightarrow> 'f option) \<Rightarrow> (string \<Rightarrow> string \<Rightarrow> 'd option) \<Rightarrow> string \<Rightarrow> string option \<Rightarrow>
   element list \<Rightarrow> (string option \<times> 'f) list \<Rightarrow> (string option \<times> 'd option) list \<Rightarrow>
   error + ((string option \<times> 'f) list \<times> (string option \<times> 'd option) list)" where
  "bal_loop pyfloat strptime ns cur [] bal_amts bal_dates = Inr (bal_amts, bal_dates)"
| "bal_loop pyfloat strptime ns cur (bal # bals) bal_amts bal_dates =
     (let cd = et_find bal [qname ns ''Tp'', qname ns ''CdOrPrtry'', qname ns ''Cd''];
          amt = et_find bal [qname ns ''Amt''];
          dt = et_find bal [qname ns ''Dt'']
      in
      (case amt of
         None \<Rightarrow> Inl AttributeError
       | Some a \<Rightarrow>
          if get_attr a ''Ccy'' \<noteq> cur
          then bal_loop pyfloat strptime ns cur bals bal_amts bal_dates
          else
           (case parse_amount pyfloat a of
              Inl e \<Rightarrow> Inl e
            | Inr v \<Rightarrow>
               (case cd of
                  None \<Rightarrow> Inl AttributeError
                | Some c \<Rightarrow>
                   (case parse_date strptime ns dt of
                      Inl e \<Rightarrow> Inl e
                    | Inr d \<Rightarrow>
                       bal_loop pyfloat strptime ns cur bals
                         (AList.update (etext c) v bal_amts)
                         (AList.update (etext c) d bal_dates))))))"

text \<open>The truth value of \<open>acctCurrency\<close>: neither \<open>None\<close> nor the empty string.\<close>

definition truthy :: "string option \<Rightarrow> bool" where
  "truthy x = (case x of None \<Rightarrow> False | Some s \<Rightarrow> s \<noteq> [])"

text \<open>\<open>'%s' % x\<close> for a value that is a string or \<open>None\<close>.\<close>

definition format_s :: "string option \<Rightarrow> string" where
  "format_s x = (case x of None \<Rightarrow> ''None'' | Some s \<Rightarrow> s)"

definition NO_CURRENCY_MESSAGE :: string where
  "NO_CURRENCY_MESSAGE =
     ''No account currency provided in statement. Please '' @
     ''specify one in configuration file (e.g. currency=EUR)''"

definition no_balance_message :: "string option \<Rightarrow> string" where
  "no_balance_message cur =
     ''No statement balance found for currency '' @ [CHR 0x27] @ format_s cur @ [CHR 0x27] @
     ''. Check currency of statement file.''"

text \<open>
  \<open>_parse_statement_properties\<close>. \<open>stmt.find\<close> raises AttributeError when the
  document has no statement element, \<open>iban.text\<close> when it has no IBAN, and
  \<open>bal_amts['OPBD']\<close> and \<open>bal_amts['CLBD']\<close> raise KeyError when the key is missing.
\<close>

definition parse_statement_properties ::
  "(string \<Rightarrow> 'f option) \<Rightarrow> (string \<Rightarrow> string \<Rightarrow> 'd option) \<Rightarrow> string \<Rightarrow>
   element \<Rightarrow> ('f, 'd) statement \<Rightarrow> error + ('f, 'd) statement" where
  "parse_statement_properties pyfloat strptime ns tree st =
     (case et_find tree [qname ns ''BkToCstmrStmt'', qname ns ''Stmt''] of
        None \<Rightarrow> Inl AttributeError
      | Some stmt \<Rightarrow>
         (let bnk0 = et_find stmt [qname ns ''Acct'', qname ns ''Svcr'', qname ns ''FinInstnId'',
                                   qname ns ''BIC''];
              bnk = (if bnk0 = None
                     then et_find stmt [qname ns ''Acct'', qname ns ''Svcr'',
                                        qname ns ''FinInstnId'', qname ns ''Nm'']
                     else bnk0);
              iban = et_find stmt [qname ns ''Acct'', qname ns ''Id'', qname ns ''IBAN''];
              ccy = et_find stmt [qname ns ''Acct'', qname ns ''Ccy''];
              bals = et_findall stmt [qname ns ''Bal''];
              acctCurrency = (case ccy of None \<Rightarrow> None | Some c \<Rightarrow> etext c)
          in
          (case (if truthy acctCurrency then Inr (st\<lparr>currency := acctCurrency\<rparr>)
                 else if currency st = None then Inl (ParseError 0 NO_CURRENCY_MESSAGE)
                 else Inr st) of
             Inl e \<Rightarrow> Inl e
           | Inr st1 \<Rightarrow>
              (case bal_loop pyfloat strptime ns (currency st1) bals [] [] of
                 Inl e \<Rightarrow> Inl e
               | Inr (bal_amts, bal_dates) \<Rightarrow>
                  if bal_amts = []
                  then Inl (ParseError 0 (no_balance_message (currency st1)))
                  else
                   (let st2 = st1\<lparr>bank_id := (case bnk of None \<Rightarrow> None | Some b \<Rightarrow> etext b)\<rparr>
                    in
                    (case iban of
                       None \<Rightarrow> Inl AttributeError
                     | Some i \<Rightarrow>
                        (case map_of bal_amts (Some ''OPBD'') of
                           None \<Rightarrow> Inl (KeyError ''OPBD'')
                         | Some sb \<Rightarrow>
                            (case map_of bal_dates (Some ''OPBD'') of
                               None \<Rightarrow> Inl (KeyError ''OPBD'')
                             | Some sd \<Rightarrow>
                                (case map_of bal_amts (Some ''CLBD'') of
                                   None \<Rightarrow> Inl (KeyError ''CLBD'')
                                 | Some eb \<Rightarrow>
                                    (case map_of bal_dates (Some ''CLBD'') of
                                       None \<Rightarrow> Inl (KeyError ''CLBD'')
                                     | Some ed \<Rightarrow>
                                        Inr (st2\<lparr>account_id := etext i,
                                                 start_balance := Some sb,
                                                 start_date := sd,
                                                 end_balance := Some eb,
                                                 end_date := ed\<rparr>)))))))))))"

text \<open>
  Names for what \<open>_parse_statement_properties\<close> computes on the way, to state its
  properties: the value of \<open>acctCurrency\<close> for a statement element; the currency
  the statement ends with (the account's when it is truthy, otherwise the one the
  statement had on entry); whether a balance entry passes the currency test of the
  loop; whether its code node has a given text; and whether an element is a balance
  entry with a code other than \<open>OPBD\<close> and \<open>CLBD\<close>.
\<close>

definition account_currency :: "string \<Rightarrow> element \<Rightarrow> string option" where
  "account_currency ns stmt =
     (case et_find stmt [qname ns ''Acct'', qname ns ''Ccy''] of
        None \<Rightarrow> None
      | Some c \<Rightarrow> etext c)"

definition effective_currency :: "string \<Rightarrow> element \<Rightarrow> string option \<Rightarrow> string option" where
  "effective_currency ns stmt default_ccy =
     (if truthy (account_currency ns stmt) then account_currency ns stmt else default_ccy)"

definition in_currency :: "string \<Rightarrow> string option \<Rightarrow> element \<Rightarrow> bool" where
  "in_currency ns cur bal =
     (case et_find bal [qname ns ''Amt''] of
        None \<Rightarrow> False
      | Some a \<Rightarrow> get_attr a ''Ccy'' = cur)"

definition has_code :: "string \<Rightarrow> string \<Rightarrow> element \<Rightarrow> bool" where
  "has_code ns code bal =
     (case et_find bal [qname ns ''Tp'', qname ns ''CdOrPrtry'', qname ns ''Cd''] of
        None \<Rightarrow> False
      | Some c \<Rightarrow> etext c = Some code)"

definition other_balance :: "string \<Rightarrow> element \<Rightarrow> bool" where
  "other_balance ns e =
     (tag e = qname ns ''Bal'' \<and>
      (case et_find e [qname ns ''Tp'', qname ns ''CdOrPrtry'', qname ns ''Cd''] of
         None \<Rightarrow> False
       | Some c \<Rightarrow> etext c \<noteq> Some ''OPBD'' \<and> etext c \<noteq> Some ''CLBD''))"

text \<open>
  Two dictionaries of the balance loop agree on the two keys that
  \<open>_parse_statement_properties\<close> reads afterwards.
\<close>

definition same_balances ::
  "(string option \<times> 'a) list \<Rightarrow> (string option \<times> 'a) list \<Rightarrow> bool" where
  "same_balances A B \<longleftrightarrow>
     map_of A (Some ''OPBD'') = map_of B (Some ''OPBD'') \<and>
     map_of A (Some ''CLBD'') = map_of B (Some ''CLBD'')"

subsection \<open>The entry point\<close>

definition ISO20022_NAMESPACE_ROOT :: string where
  "ISO20022_NAMESPACE_ROOT = ''urn:iso:std:iso:20022:tech:xsd:camt.053.001''"

text \<open>
  \<open>_get_namespace\<close>: \<open>re.match('\{(.*)\}', elem.tag)\<close> matches at the start of the tag
  an opening brace, the longest run without a newline that still leaves a closing
  brace, and that brace; the group is the run. Without a match the result is \<open>''\<close>.
\<close>

definition get_namespace :: "element \<Rightarrow> string" where
  "get_namespace elem =
     (case tag elem of
        [] \<Rightarrow> []
      | c # rest \<Rightarrow>
          if c = CHR ''{'' then
            (let run = takeWhile (\<lambda>x. x \<noteq> CHR 0x0A) rest in
             if CHR ''}'' \<in> set run
             then rev (tl (dropWhile (\<lambda>x. x \<noteq> CHR ''}'') (rev run)))
             else [])
          else [])"

definition startswith :: "string \<Rightarrow> string \<Rightarrow> bool" where
  "startswith s p = (take (length p) s = p)"

text \<open>
  \<open>parse\<close>, on the root element \<open>doc\<close> that \<open>ET.parse\<close> read from the file; \<open>default_ccy\<close> is
  the \<open>currency\<close> the parser was constructed with.
\<close>

definition parse ::
  "(string \<Rightarrow> 'f::uminus option) \<Rightarrow> (string \<Rightarrow> string \<Rightarrow> 'd option) \<Rightarrow> string option \<Rightarrow>
   element \<Rightarrow> error + ('f, 'd) statement" where
  "parse pyfloat strptime default_ccy doc =
     (let st = new_Statement\<lparr>currency := default_ccy\<rparr>;
          ns = get_namespace doc
      in
      if \<not> startswith ns ISO20022_NAMESPACE_ROOT
      then Inl (ParseError 0 ''Cannot recognize ISO20022 XML'')
      else
       (case parse_statement_properties pyfloat strptime ns doc st of
          Inl e \<Rightarrow> Inl e
        | Inr st1 \<Rightarrow> parse_lines pyfloat strptime ns doc st1))"

subsection \<open>Instances of the library functions, and sample documents\<close>

text \<open>
  The examples below need a concrete \<open>pyfloat\<close> and \<open>strptime\<close>. \<open>decimal_float\<close>
  reads what \<open>float\<close> reads on a plain decimal literal: an optional sign, digits, and
  optionally a point and more digits; the value is the exact rational number. On
  any other text it gives \<open>None\<close> (Python's \<open>float\<close> accepts more: exponents,
  \<open>inf\<close>, \<open>nan\<close>, surrounding blanks); the general theorems do not depend on it.
\<close>

definition digit_value :: "char \<Rightarrow> nat option" where
  "digit_value c =
     map_of [(CHR ''0'', 0), (CHR ''1'', 1), (CHR ''2'', 2), (CHR ''3'', 3), (CHR ''4'', 4),
             (CHR ''5'', 5), (CHR ''6'', 6), (CHR ''7'', 7), (CHR ''8'', 8), (CHR ''9'', 9)] c"

fun digits_value :: "nat \<Rightarrow> string \<Rightarrow> nat option" where
  "digits_value acc [] = Some acc"
| "digits_value acc (c # cs) =
     (case digit_value c of
        None \<Rightarrow> None
      | Some d \<Rightarrow> digits_value (10 * acc + d) cs)"

definition number :: "string \<Rightarrow> nat option" where
  "number s = (if s = [] then None else digits_value 0 s)"

definition unsigned_decimal :: "string \<Rightarrow> rat option" where
  "unsigned_decimal s =
     (case split_on (CHR ''.'') s of
        [ip] \<Rightarrow> map_option of_nat (number ip)
      | [ip, fp] \<Rightarrow>
          (if ip = [] \<or> fp = [] then None
           else map_option (\<lambda>n. of_nat n / 10 ^ length fp) (number (ip @ fp)))
      | _ \<Rightarrow> None)"

definition decimal_float :: "string \<Rightarrow> rat option" where
  "decimal_float s =
     (case s of
        [] \<Rightarrow> None
      | c # cs \<Rightarrow>
          if c = CHR ''-'' then map_option uminus (unsigned_decimal cs)
          else if c = CHR ''+'' then unsigned_decimal cs
          else unsigned_decimal s)"

text \<open>
  \<open>iso_strptime\<close> reads the two formats of \<open>_parse_date\<close> on numeric fields: a
  four-digit year, one or two digits for every other field, and the ranges of the
  calendar and the clock.
\<close>

record datetime =
  year :: nat
  month :: nat
  day :: nat
  hour :: nat
  minute :: nat
  second :: nat

definition days_in_month :: "nat \<Rightarrow> nat \<Rightarrow> nat" where
  "days_in_month y m =
     (if m = 2 then (if y mod 4 = 0 \<and> (y mod 100 \<noteq> 0 \<or> y mod 400 = 0) then 29 else 28)
      else if m = 4 \<or> m = 6 \<or> m = 9 \<or> m = 11 then 30
      else 31)"

definition short_field :: "string \<Rightarrow> nat option" where
  "short_field s = (if length s = 1 \<or> length s = 2 then number s else None)"

definition calendar_date :: "string \<Rightarrow> (nat \<times> nat \<times> nat) option" where
  "calendar_date s =
     (case split_on (CHR ''-'') s of
        [ys, ms, ds] \<Rightarrow>
          (case (if length ys = 4 then number ys else None, short_field ms, short_field ds) of
             (Some y, Some m, Some d) \<Rightarrow>
               if 1 \<le> y \<and> 1 \<le> m \<and> m \<le> 12 \<and> 1 \<le> d \<and> d \<le> days_in_month y m
               then Some (y, m, d) else None
           | _ \<Rightarrow> None)
      | _ \<Rightarrow> None)"

definition clock_time :: "string \<Rightarrow> (nat \<times> nat \<times> nat) option" where
  "clock_time s =
     (case split_on (CHR '':'') s of
        [hs, ms, ss] \<Rightarrow>
          (case (short_field hs, short_field ms, short_field ss) of
             (Some h, Some m, Some sec) \<Rightarrow>
               if h < 24 \<and> m < 60 \<and> sec < 60 then Some (h, m, sec) else None
           | _ \<Rightarrow> None)
      | _ \<Rightarrow> None)"

definition iso_strptime :: "string \<Rightarrow> string \<Rightarrow> datetime option" where
  "iso_strptime s fmt =
     (if fmt = DATE_FORMAT then
        (case calendar_date s of
           Some (y, m, d) \<Rightarrow>
             Some \<lparr>year = y, month = m, day = d, hour = 0, minute = 0, second = 0\<rparr>
         | None \<Rightarrow> None)
      else if fmt = DATETIME_FORMAT then
        (case split_on (CHR ''T'') s of
           [ds, ts] \<Rightarrow>
             (case (calendar_date ds, clock_time ts) of
                (Some (y, m, d), Some (h, mi, sec)) \<Rightarrow>
                  Some \<lparr>year = y, month = m, day = d, hour = h, minute = mi, second = sec\<rparr>
              | _ \<Rightarrow> None)
         | _ \<Rightarrow> None)
      else None)"

text \<open>Elements of a sample document, in the namespace of \<open>camt.053.001.02\<close>.\<close>

definition NS :: string where
  "NS = ''urn:iso:std:iso:20022:tech:xsd:camt.053.001.02''"

definition node :: "string \<Rightarrow> element list \<Rightarrow> element" where
  "node t cs = Element (qname NS t) [] None cs"

definition leaf :: "string \<Rightarrow> string \<Rightarrow> element" where
  "leaf t s = Element (qname NS t) [] (Some s) []"

definition amount_node :: "string \<Rightarrow> string \<Rightarrow> element" where
  "amount_node ccy s = Element (qname NS ''Amt'') [(''Ccy'', ccy)] (Some s) []"

text \<open>
  An entry with the given indicator, currency and amount text, a booking and a value
  date, an entry-level reference and both related parties; an entry with no
  reference at either place; and a statement whose currency is resolved to EUR.
\<close>

definition sample_entry :: "string \<Rightarrow> string \<Rightarrow> string \<Rightarrow> element" where
  "sample_entry ind ccy amt =
     node ''Ntry''
       [amount_node ccy amt,
        leaf ''CdtDbtInd'' ind,
        node ''BookgDt'' [leaf ''Dt'' ''2015-12-31''],
        node ''ValDt'' [leaf ''Dt'' ''2016-01-01''],
        leaf ''AcctSvcrRef'' ''FC1261858984'',
        node ''NtryDtls''
          [node ''TxDtls''
             [node ''RltdPties''
                [node ''Dbtr'' [leaf ''Nm'' ''UAB Pirkejas''],
                 node ''Cdtr'' [leaf ''Nm'' ''AB DNB Bankas'']]]]]"

definition entry_without_reference :: element where
  "entry_without_reference =
     node ''Ntry''
       [amount_node ''EUR'' ''10.00'',
        leaf ''CdtDbtInd'' ''CRDT'',
        node ''BookgDt'' [leaf ''Dt'' ''2015-12-31''],
        node ''ValDt'' [leaf ''Dt'' ''2016-01-01'']]"

definition eur_statement :: "(rat, datetime) statement" where
  "eur_statement = new_Statement\<lparr>currency := Some ''EUR''\<rparr>"

text \<open>
  The account of a sample statement, with or without a currency code; a balance
  entry; and a document around the children of its statement element.
\<close>

definition sample_account :: "string option \<Rightarrow> element" where
  "sample_account ccy =
     node ''Acct''
       ([node ''Id'' [leaf ''IBAN'' ''LT000000000000000000'']] @
        (case ccy of None \<Rightarrow> [] | Some c \<Rightarrow> [leaf ''Ccy'' c]) @
        [node ''Svcr'' [node ''FinInstnId'' [leaf ''BIC'' ''AGBLLT2XXXX'']]])"

definition balance :: "string \<Rightarrow> string \<Rightarrow> string \<Rightarrow> string \<Rightarrow> element" where
  "balance code ccy amt dt =
     node ''Bal''
       [node ''Tp'' [node ''CdOrPrtry'' [leaf ''Cd'' code]],
        amount_node ccy amt,
        leaf ''CdtDbtInd'' ''CRDT'',
        node ''Dt'' [leaf ''Dt'' dt]]"

definition document :: "element list \<Rightarrow> element" where
  "document stmt_children =
     node ''Document'' [node ''BkToCstmrStmt'' [node ''Stmt'' stmt_children]]"

text \<open>
  A whole sample document: the account, an opening and a closing balance in EUR, and
  one debit entry in EUR.
\<close>

definition sample_document :: "string option \<Rightarrow> element" where
  "sample_document ccy =
     document
       [sample_account ccy,
        balance ''OPBD'' ''EUR'' ''306.53'' ''2015-12-01'',
        balance ''CLBD'' ''EUR'' ''125.52'' ''2015-12-31'',
        sample_entry ''DBIT'' ''EUR'' ''0.29'']"

section \<open>Properties\<close>

subsection \<open>Splitting\<close>

lemma split_on_nonempty: "split_on c s \<noteq> []"
  by (induction s) (auto split: list.splits)

lemma split_on_absent: "c \<notin> set s \<Longrightarrow> split_on c s = [s]"
  by (induction s) auto

lemma split_on_append:
  "c \<notin> set p \<Longrightarrow> split_on c (p @ c # s) = p # split_on c s"
  by (induction p) auto

lemma length_split_on: "length (split_on c s) = Suc (count_list s c)"
  by (induction s) (auto split: list.splits simp: split_on_nonempty)

lemma count_list_pos: "c \<in> set s \<Longrightarrow> 0 < count_list s c"
  by (induction s) auto

lemma split_on_parts: "p \<in> set (split_on c s) \<Longrightarrow> c \<notin> set p"
  by (induction s arbitrary: p) (auto split: list.splits if_splits)

lemma notimezone_result_plain:
  assumes "notimezone dt = Inr r"
  shows "CHR ''+'' \<notin> set r"
proof -
  from assms obtain s where s: "dt = Some s"
    by (auto simp: notimezone_def split: option.splits)
  show ?thesis
  proof (cases "CHR ''+'' \<in> set s")
    case False
    with assms s show ?thesis by (simp add: notimezone_def)
  next
    case True
    with assms s have "r \<in> set (split_on (CHR ''+'') s)"
      by (auto simp: notimezone_def split: list.splits)
    then show ?thesis by (rule split_on_parts)
  qed
qed

subsection \<open>Stripping the timezone\<close>

text \<open>
  Claim C8. A text without \<open>+\<close> comes back from \<open>_notimezone\<close> unchanged; whatever
  \<open>_notimezone\<close> returns is returned unchanged by a second application, so stripping
  twice is stripping once; and a prefix followed by a single \<open>+offset\<close> suffix (neither
  the prefix nor the offset holds a \<open>+\<close>) gives exactly the prefix.
\<close>

theorem notimezone_idempotent_and_prefix:
  "(CHR ''+'' \<notin> set s \<longrightarrow> notimezone (Some s) = Inr s) \<and>
   (notimezone (Some s) = Inr r \<longrightarrow> notimezone (Some r) = Inr r) \<and>
   (CHR ''+'' \<notin> set p \<and> CHR ''+'' \<notin> set off \<longrightarrow>
      notimezone (Some (p @ CHR ''+'' # off)) = Inr p)"
proof (intro conjI impI)
  assume "CHR ''+'' \<notin> set s"
  then show "notimezone (Some s) = Inr s" by (simp add: notimezone_def)
next
  assume "notimezone (Some s) = Inr r"
  then have "CHR ''+'' \<notin> set r" by (rule notimezone_result_plain)
  then show "notimezone (Some r) = Inr r" by (simp add: notimezone_def)
next
  assume "CHR ''+'' \<notin> set p \<and> CHR ''+'' \<notin> set off"
  then show "notimezone (Some (p @ CHR ''+'' # off)) = Inr p"
    by (simp add: notimezone_def split_on_append split_on_absent)
qed

theorem notimezone_idempotent_and_prefix_witness:
  "CHR ''+'' \<notin> set ''2015-12-31'' \<and>
   notimezone (Some ''2015-12-31'') = Inr ''2015-12-31'' \<and>
   notimezone (Some ''2017-04-01+02:00'') = Inr ''2017-04-01'' \<and>
   notimezone (Some ''2017-04-01'') = Inr ''2017-04-01''"
proof -
  have a: "CHR ''+'' \<notin> set ''2015-12-31''" by simp
  have b: "CHR ''+'' \<notin> set ''2017-04-01'' \<and> CHR ''+'' \<notin> set ''02:00''" by simp
  note t = notimezone_idempotent_and_prefix
    [of "''2015-12-31''" "''2017-04-01''" "''2017-04-01''" "''02:00''"]
  note t2 = notimezone_idempotent_and_prefix
    [of "''2017-04-01+02:00''" "''2017-04-01''" "''2017-04-01''" "''02:00''"]
  from t a have c: "notimezone (Some ''2015-12-31'') = Inr ''2015-12-31''" by blast
  from t b have d: "notimezone (Some ''2017-04-01+02:00'') = Inr ''2017-04-01''" by simp
  from t2 d have e: "notimezone (Some ''2017-04-01'') = Inr ''2017-04-01''" by blast
  from a c d e show ?thesis by blast
qed

text \<open>
  Claim C10. On a text with two or more \<open>+\<close> characters \<open>_notimezone\<close> raises (the
  two-way unpacking of the split gets three or more parts, a ValueError); on a text
  with at most one \<open>+\<close> it returns a value.
\<close>

theorem notimezone_multi_plus_fails:
  "(2 \<le> count_list s (CHR ''+'') \<longrightarrow> notimezone (Some s) = Inl ValueError) \<and>
   (count_list s (CHR ''+'') \<le> 1 \<longrightarrow> (\<exists>r. notimezone (Some s) = Inr r))"
proof (intro conjI impI)
  assume two: "2 \<le> count_list s (CHR ''+'')"
  then have "CHR ''+'' \<in> set s" by (metis count_list_0_iff not_numeral_le_zero)
  moreover from two have "3 \<le> length (split_on (CHR ''+'') s)"
    by (simp add: length_split_on)
  ultimately show "notimezone (Some s) = Inl ValueError"
    by (auto simp: notimezone_def split: list.splits)
next
  assume one: "count_list s (CHR ''+'') \<le> 1"
  show "\<exists>r. notimezone (Some s) = Inr r"
  proof (cases "CHR ''+'' \<in> set s")
    case False
    then show ?thesis by (simp add: notimezone_def)
  next
    case True
    then have "0 < count_list s (CHR ''+'')" by (rule count_list_pos)
    with one have "length (split_on (CHR ''+'') s) = 2"
      by (simp add: length_split_on)
    then obtain d tz where "split_on (CHR ''+'') s = [d, tz]"
      by (auto simp: length_Suc_conv numeral_2_eq_2)
    with True show ?thesis by (simp add: notimezone_def)
  qed
qed

theorem notimezone_multi_plus_fails_witness:
  "2 \<le> count_list ''2017-04-01+02:00+01'' (CHR ''+'') \<and>
   notimezone (Some ''2017-04-01+02:00+01'') = Inl ValueError \<and>
   count_list ''2017-04-01+02:00'' (CHR ''+'') \<le> 1 \<and>
   (\<exists>r. notimezone (Some ''2017-04-01+02:00'') = Inr r)"
proof -
  have a: "2 \<le> count_list ''2017-04-01+02:00+01'' (CHR ''+'')" by simp
  have b: "count_list ''2017-04-01+02:00'' (CHR ''+'') \<le> 1" by simp
  from a notimezone_multi_plus_fails [of "''2017-04-01+02:00+01''"]
  have c: "notimezone (Some ''2017-04-01+02:00+01'') = Inl ValueError" by blast
  from b notimezone_multi_plus_fails [of "''2017-04-01+02:00''"]
  have d: "\<exists>r. notimezone (Some ''2017-04-01+02:00'') = Inr r" by blast
  from a b c d show ?thesis by blast
qed

subsection \<open>Evaluating the samples\<close>

lemma qname_eq_iff: "qname ns a = qname ns b \<longleftrightarrow> a = b"
  by (simp add: qname_def)

lemmas sample_defs = node_def leaf_def amount_node_def sample_entry_def
  entry_without_reference_def eur_statement_def sample_account_def balance_def document_def

lemmas lookup_defs = find_x_def findall_x_def et_find_def toxpath_def get_attr_def qname_eq_iff

lemmas instance_defs = decimal_float_def unsigned_decimal_def number_def digit_value_def
  iso_strptime_def calendar_date_def clock_time_def short_field_def days_in_month_def
  DATE_FORMAT_def DATETIME_FORMAT_def

lemmas entry_defs = parse_line_def parse_amount_def parse_date_def notimezone_def
  new_StatementLine_def new_Statement_def CD_DEBIT_def CD_CREDIT_def

subsection \<open>The stages of an entry\<close>

lemma parse_line_no_indicator:
  "find_x ns ntry ''CdtDbtInd'' = None \<Longrightarrow>
   parse_line pyfloat strptime ns st ntry = Inl AttributeError"
  by (simp add: parse_line_def)

lemma parse_line_no_amount:
  "find_x ns ntry ''CdtDbtInd'' = Some ind \<Longrightarrow> find_x ns ntry ''Amt'' = None \<Longrightarrow>
   parse_line pyfloat strptime ns st ntry = Inl AttributeError"
  by (simp add: parse_line_def)

lemma parse_line_foreign:
  "find_x ns ntry ''CdtDbtInd'' = Some ind \<Longrightarrow> find_x ns ntry ''Amt'' = Some amtnode \<Longrightarrow>
   get_attr amtnode ''Ccy'' \<noteq> currency st \<Longrightarrow>
   parse_line pyfloat strptime ns st ntry = Inr None"
  by (simp add: parse_line_def)

lemma parse_line_matching:
  assumes "find_x ns ntry ''CdtDbtInd'' = Some ind"
    and "find_x ns ntry ''Amt'' = Some amtnode"
    and "get_attr amtnode ''Ccy'' = currency st"
  shows "parse_line pyfloat strptime ns st ntry =
    (case parse_amount pyfloat amtnode of
       Inl e \<Rightarrow> Inl e
     | Inr v \<Rightarrow>
       (case parse_date strptime ns (find_x ns ntry ''ValDt'') of
          Inl e \<Rightarrow> Inl e
        | Inr d \<Rightarrow>
          (case parse_date strptime ns (find_x ns ntry ''BookgDt'') of
             Inl e \<Rightarrow> Inl e
           | Inr du \<Rightarrow>
             (case (case find_x ns ntry ''NtryDtls/TxDtls/Refs/AcctSvcrRef'' of
                      None \<Rightarrow> find_x ns ntry ''AcctSvcrRef''
                    | Some x \<Rightarrow> Some x) of
                None \<Rightarrow> Inl AttributeError
              | Some r \<Rightarrow>
                 Inr (Some
                   \<lparr>payee =
                      (case (if etext ind = Some CD_DEBIT
                             then find_x ns ntry ''NtryDtls/TxDtls/RltdPties/Cdtr/Nm''
                             else find_x ns ntry ''NtryDtls/TxDtls/RltdPties/Dbtr/Nm'') of
                         None \<Rightarrow> None
                       | Some p \<Rightarrow> etext p),
                    amount = Some (if etext ind = Some CD_DEBIT then - v else v),
                    date = d, date_user = du, refnum = etext r,
                    memo =
                      (case find_x ns ntry ''NtryDtls/TxDtls/RmtInf/Ustrd'' of
                         Some m \<Rightarrow> etext m
                       | None \<Rightarrow>
                          (case find_x ns ntry ''AddtlNtryInf'' of
                             Some a \<Rightarrow> etext a
                           | None \<Rightarrow> None))\<rparr>)))))"
proof -
  have memo_eq: "\<And>(l :: ('f, 'd) statement_line) rm ad.
      (case rm of Some m \<Rightarrow> l\<lparr>memo := etext m\<rparr>
       | None \<Rightarrow> (case ad of Some a \<Rightarrow> l\<lparr>memo := etext a\<rparr> | None \<Rightarrow> l)) =
      l\<lparr>memo := (case rm of Some m \<Rightarrow> etext m
                   | None \<Rightarrow> (case ad of Some a \<Rightarrow> etext a | None \<Rightarrow> memo l))\<rparr>"
    by (simp split: option.split)
  show ?thesis
    unfolding parse_line_def Let_def memo_eq
    by (simp add: assms new_StatementLine_def split: sum.split option.split)
qed

lemma parse_line_Some:
  assumes ok: "parse_line pyfloat strptime ns st ntry = Inr (Some sline)"
  shows "\<exists>ind amtnode v r.
           find_x ns ntry ''CdtDbtInd'' = Some ind \<and>
           find_x ns ntry ''Amt'' = Some amtnode \<and>
           get_attr amtnode ''Ccy'' = currency st \<and>
           parse_amount pyfloat amtnode = Inr v \<and>
           amount sline = Some (if etext ind = Some CD_DEBIT then - v else v) \<and>
           payee sline =
             (case (if etext ind = Some CD_DEBIT
                    then find_x ns ntry ''NtryDtls/TxDtls/RltdPties/Cdtr/Nm''
                    else find_x ns ntry ''NtryDtls/TxDtls/RltdPties/Dbtr/Nm'') of
                None \<Rightarrow> None | Some p \<Rightarrow> etext p) \<and>
           parse_date strptime ns (find_x ns ntry ''ValDt'') = Inr (date sline) \<and>
           parse_date strptime ns (find_x ns ntry ''BookgDt'') = Inr (date_user sline) \<and>
           (case find_x ns ntry ''NtryDtls/TxDtls/Refs/AcctSvcrRef'' of
              None \<Rightarrow> find_x ns ntry ''AcctSvcrRef''
            | Some x \<Rightarrow> Some x) = Some r \<and>
           refnum sline = etext r"
proof -
  obtain ind where ind: "find_x ns ntry ''CdtDbtInd'' = Some ind"
    using ok parse_line_no_indicator [of ns ntry pyfloat strptime st]
    by (cases "find_x ns ntry ''CdtDbtInd''") auto
  obtain amtnode where amt: "find_x ns ntry ''Amt'' = Some amtnode"
    using ok parse_line_no_amount [OF ind, of pyfloat strptime st]
    by (cases "find_x ns ntry ''Amt''") auto
  have ccy: "get_attr amtnode ''Ccy'' = currency st"
    using ok parse_line_foreign [OF ind amt, of st pyfloat strptime] by auto
  note eq = parse_line_matching [OF ind amt ccy, of pyfloat strptime]
  from ok [unfolded eq] obtain v where v: "parse_amount pyfloat amtnode = Inr v"
    by (auto split: sum.splits)
  from ok [unfolded eq v] obtain d
    where d: "parse_date strptime ns (find_x ns ntry ''ValDt'') = Inr d"
    by (auto split: sum.splits)
  from ok [unfolded eq v d] obtain du
    where du: "parse_date strptime ns (find_x ns ntry ''BookgDt'') = Inr du"
    by (auto split: sum.splits)
  from ok [unfolded eq v d du] obtain r
    where r: "(case find_x ns ntry ''NtryDtls/TxDtls/Refs/AcctSvcrRef'' of
                 None \<Rightarrow> find_x ns ntry ''AcctSvcrRef''
               | Some x \<Rightarrow> Some x) = Some r"
    by (cases "case find_x ns ntry ''NtryDtls/TxDtls/Refs/AcctSvcrRef'' of
                 None \<Rightarrow> find_x ns ntry ''AcctSvcrRef''
               | Some x \<Rightarrow> Some x") auto
  from ok [unfolded eq v d du] r have sl: "sline =
      \<lparr>payee =
         (case (if etext ind = Some CD_DEBIT
                then find_x ns ntry ''NtryDtls/TxDtls/RltdPties/Cdtr/Nm''
                else find_x ns ntry ''NtryDtls/TxDtls/RltdPties/Dbtr/Nm'') of
            None \<Rightarrow> None
          | Some p \<Rightarrow> etext p),
       amount = Some (if etext ind = Some CD_DEBIT then - v else v),
       date = d, date_user = du, refnum = etext r,
       memo =
         (case find_x ns ntry ''NtryDtls/TxDtls/RmtInf/Ustrd'' of
            Some m \<Rightarrow> etext m
          | None \<Rightarrow>
             (case find_x ns ntry ''AddtlNtryInf'' of
                Some a \<Rightarrow> etext a
              | None \<Rightarrow> None))\<rparr>"
    by simp
  show ?thesis
    apply (rule exI [of _ ind], rule exI [of _ amtnode], rule exI [of _ v], rule exI [of _ r])
    using ind amt ccy v d du r by (simp add: sl)
qed

subsection \<open>Sample entries\<close>

lemma sample_other_line:
  "parse_line decimal_float iso_strptime NS eur_statement (sample_entry ''OTHR'' ''EUR'' ''12.50'') =
   Inr (Some
     \<lparr>payee = Some ''UAB Pirkejas'', amount = Some (25 / 2),
      date = Some \<lparr>year = 2016, month = 1, day = 1, hour = 0, minute = 0, second = 0\<rparr>,
      date_user = Some \<lparr>year = 2015, month = 12, day = 31, hour = 0, minute = 0, second = 0\<rparr>,
      refnum = Some ''FC1261858984'', memo = None\<rparr>)"
  by (simp add: entry_defs sample_defs lookup_defs instance_defs)

lemma sample_debit_line:
  "parse_line decimal_float iso_strptime NS eur_statement (sample_entry ''DBIT'' ''EUR'' ''0.29'') =
   Inr (Some
     \<lparr>payee = Some ''AB DNB Bankas'', amount = Some (- (29 / 100)),
      date = Some \<lparr>year = 2016, month = 1, day = 1, hour = 0, minute = 0, second = 0\<rparr>,
      date_user = Some \<lparr>year = 2015, month = 12, day = 31, hour = 0, minute = 0, second = 0\<rparr>,
      refnum = Some ''FC1261858984'', memo = None\<rparr>)"
  by (simp add: entry_defs sample_defs lookup_defs instance_defs)

lemma sample_indicator:
  "find_x NS (sample_entry i c a) ''CdtDbtInd'' = Some (leaf ''CdtDbtInd'' i)"
  by (simp add: sample_defs lookup_defs)

subsection \<open>Indicator, sign and payee\<close>

text \<open>
  Claim C9. For an entry whose indicator node is present and whose text is not
  \<open>DBIT\<close> (\<open>CRDT\<close>, any other text, or no text), the line's amount is the value
  parsed from the amount text, not negated, and the payee is the text of the debtor's
  name node (absent when that node is not found).
\<close>

theorem unknown_indicator_credit_semantics:
  assumes "find_x ns ntry ''CdtDbtInd'' = Some ind"
    and "etext ind \<noteq> Some CD_DEBIT"
    and "parse_line pyfloat strptime ns st ntry = Inr (Some sline)"
  shows "\<exists>amtnode v.
           find_x ns ntry ''Amt'' = Some amtnode \<and>
           parse_amount pyfloat amtnode = Inr v \<and>
           amount sline = Some v \<and>
           payee sline =
             (case find_x ns ntry ''NtryDtls/TxDtls/RltdPties/Dbtr/Nm'' of
                None \<Rightarrow> None
              | Some p \<Rightarrow> etext p)"
  using parse_line_Some [OF assms(3)] assms(1,2) by auto

theorem unknown_indicator_credit_semantics_witness:
  "find_x NS (sample_entry ''OTHR'' ''EUR'' ''12.50'') ''CdtDbtInd'' =
     Some (leaf ''CdtDbtInd'' ''OTHR'') \<and>
   etext (leaf ''CdtDbtInd'' ''OTHR'') \<noteq> Some CD_DEBIT \<and>
   line_amount (parse_line decimal_float iso_strptime NS eur_statement
     (sample_entry ''OTHR'' ''EUR'' ''12.50'')) = Some (25 / 2) \<and>
   (\<exists>amtnode v.
      find_x NS (sample_entry ''OTHR'' ''EUR'' ''12.50'') ''Amt'' = Some amtnode \<and>
      parse_amount decimal_float amtnode = Inr v \<and>
      Some (25 / 2) = Some v \<and>
      Some ''UAB Pirkejas'' =
        (case find_x NS (sample_entry ''OTHR'' ''EUR'' ''12.50'')
                ''NtryDtls/TxDtls/RltdPties/Dbtr/Nm'' of
           None \<Rightarrow> None
         | Some p \<Rightarrow> etext p))"
proof -
  have a: "find_x NS (sample_entry ''OTHR'' ''EUR'' ''12.50'') ''CdtDbtInd'' =
      Some (leaf ''CdtDbtInd'' ''OTHR'')"
    by (rule sample_indicator)
  have b: "etext (leaf ''CdtDbtInd'' ''OTHR'') \<noteq> Some CD_DEBIT"
    by (simp add: leaf_def CD_DEBIT_def)
  have c: "line_amount (parse_line decimal_float iso_strptime NS eur_statement
     (sample_entry ''OTHR'' ''EUR'' ''12.50'')) = Some (25 / 2)"
    by (simp add: sample_other_line line_amount_def)
  from unknown_indicator_credit_semantics [OF a b sample_other_line] a b c
  show ?thesis by simp
qed

text \<open>
  Claim C2, as stated, fails: the amount of a debit entry is the negation of the
  parsed value, so it is not negative when the text is \<open>0.00\<close> or negative, and
  the amount of a credit entry is the parsed value, so it is negative when the text
  is negative.
\<close>

theorem debit_amount_negative_counterexample:
  "line_amount (parse_line decimal_float iso_strptime NS eur_statement
      (sample_entry ''DBIT'' ''EUR'' ''0.00'')) = Some 0 \<and>
   \<not> (0::rat) < 0 \<and>
   line_amount (parse_line decimal_float iso_strptime NS eur_statement
      (sample_entry ''DBIT'' ''EUR'' ''-5.00'')) = Some 5 \<and>
   \<not> (5::rat) < 0 \<and>
   line_amount (parse_line decimal_float iso_strptime NS eur_statement
      (sample_entry ''CRDT'' ''EUR'' ''-5.00'')) = Some (- 5) \<and>
   \<not> (0::rat) \<le> - 5"
  by (simp add: line_amount_def entry_defs sample_defs lookup_defs instance_defs)

text \<open>
  Claim C2, amended. For every extracted entry with parsed amount value \<open>v\<close>: a debit
  entry has amount \<open>- v\<close>, which is negative when \<open>v\<close> is positive, and its payee is
  the creditor's name; a credit entry has amount \<open>v\<close> and its payee is the debtor's
  name; the payee is absent when the name node is not found.
\<close>

theorem debit_negates_credit_keeps:
  fixes pyfloat :: "string \<Rightarrow> 'f::ordered_ab_group_add option"
  assumes "find_x ns ntry ''CdtDbtInd'' = Some ind"
    and "parse_line pyfloat strptime ns st ntry = Inr (Some sline)"
  shows "\<exists>amtnode v.
           find_x ns ntry ''Amt'' = Some amtnode \<and>
           parse_amount pyfloat amtnode = Inr v \<and>
           (etext ind = Some CD_DEBIT \<longrightarrow>
              amount sline = Some (- v) \<and> (0 < v \<longrightarrow> - v < 0) \<and>
              payee sline =
                (case find_x ns ntry ''NtryDtls/TxDtls/RltdPties/Cdtr/Nm'' of
                   None \<Rightarrow> None
                 | Some p \<Rightarrow> etext p)) \<and>
           (etext ind = Some CD_CREDIT \<longrightarrow>
              amount sline = Some v \<and>
              payee sline =
                (case find_x ns ntry ''NtryDtls/TxDtls/RltdPties/Dbtr/Nm'' of
                   None \<Rightarrow> None
                 | Some p \<Rightarrow> etext p))"
  using parse_line_Some [OF assms(2)] assms(1)
  by (auto simp: CD_DEBIT_def CD_CREDIT_def)

theorem debit_negates_credit_keeps_witness:
  "find_x NS (sample_entry ''DBIT'' ''EUR'' ''0.29'') ''CdtDbtInd'' =
     Some (leaf ''CdtDbtInd'' ''DBIT'') \<and>
   etext (leaf ''CdtDbtInd'' ''DBIT'') = Some CD_DEBIT \<and>
   line_amount (parse_line decimal_float iso_strptime NS eur_statement
     (sample_entry ''DBIT'' ''EUR'' ''0.29'')) = Some (- (29 / 100)) \<and>
   (\<exists>amtnode v.
      find_x NS (sample_entry ''DBIT'' ''EUR'' ''0.29'') ''Amt'' = Some amtnode \<and>
      parse_amount decimal_float amtnode = Inr v \<and> 0 < v \<and> - v = - (29 / 100) \<and> - v < 0) \<and>
   find_x NS (sample_entry ''OTHR'' ''EUR'' ''12.50'') ''CdtDbtInd'' =
     Some (leaf ''CdtDbtInd'' ''OTHR'')"
proof -
  have a: "find_x NS (sample_entry ''DBIT'' ''EUR'' ''0.29'') ''CdtDbtInd'' =
      Some (leaf ''CdtDbtInd'' ''DBIT'')"
    by (rule sample_indicator)
  have b: "etext (leaf ''CdtDbtInd'' ''DBIT'') = Some CD_DEBIT"
    by (simp add: leaf_def CD_DEBIT_def)
  have c: "find_x NS (sample_entry ''DBIT'' ''EUR'' ''0.29'') ''Amt'' =
      Some (amount_node ''EUR'' ''0.29'')"
    by (simp add: sample_defs lookup_defs)
  have d: "parse_amount decimal_float (amount_node ''EUR'' ''0.29'') = Inr (29 / 100)"
    by (simp add: parse_amount_def amount_node_def instance_defs)
  from debit_negates_credit_keeps [OF a sample_debit_line] b c d
  have e: "\<exists>amtnode v.
      find_x NS (sample_entry ''DBIT'' ''EUR'' ''0.29'') ''Amt'' = Some amtnode \<and>
      parse_amount decimal_float amtnode = Inr v \<and> 0 < v \<and> - v = - (29 / 100) \<and> - v < 0"
    by auto
  have f: "line_amount (parse_line decimal_float iso_strptime NS eur_statement
     (sample_entry ''DBIT'' ''EUR'' ''0.29'')) = Some (- (29 / 100))"
    by (simp add: sample_debit_line line_amount_def)
  from a b e f sample_indicator [of "''OTHR''" "''EUR''" "''12.50''"] show ?thesis by blast
qed

subsection \<open>The reference number\<close>

text \<open>
  Claim C4, as stated, fails on the kind of failure: with no reference at either
  place the entry raises AttributeError (from \<open>svcref.text\<close> on \<open>None\<close>), not a
  \<open>ParseError\<close>.
\<close>

theorem missing_reference_counterexample:
  "parse_line decimal_float iso_strptime NS eur_statement entry_without_reference =
     Inl AttributeError \<and>
   \<not> fails_with_ParseError
      (parse_line decimal_float iso_strptime NS eur_statement entry_without_reference)"
  by (simp add: fails_with_ParseError_def entry_defs sample_defs lookup_defs instance_defs)

text \<open>
  Claim C4, amended. The reference number of an extracted line is the text of the
  transaction-detail reference node when that node exists, and of the entry-level
  node otherwise, and one of the two exists. When both are absent, an entry that
  passes the currency test and whose amount and dates parse ends in AttributeError.
\<close>

theorem refnum_resolution:
  "(parse_line pyfloat strptime ns st ntry = Inr (Some sline) \<longrightarrow>
      (\<exists>r. (case find_x ns ntry ''NtryDtls/TxDtls/Refs/AcctSvcrRef'' of
               None \<Rightarrow> find_x ns ntry ''AcctSvcrRef''
             | Some x \<Rightarrow> Some x) = Some r \<and>
           refnum sline = etext r)) \<and>
   (find_x ns ntry ''NtryDtls/TxDtls/Refs/AcctSvcrRef'' = None \<and>
    find_x ns ntry ''AcctSvcrRef'' = None \<and>
    find_x ns ntry ''CdtDbtInd'' = Some ind \<and>
    find_x ns ntry ''Amt'' = Some amtnode \<and>
    get_attr amtnode ''Ccy'' = currency st \<and>
    parse_amount pyfloat amtnode = Inr v \<and>
    parse_date strptime ns (find_x ns ntry ''ValDt'') = Inr d \<and>
    parse_date strptime ns (find_x ns ntry ''BookgDt'') = Inr du \<longrightarrow>
      parse_line pyfloat strptime ns st ntry = Inl AttributeError)"
proof (intro conjI impI)
  assume "parse_line pyfloat strptime ns st ntry = Inr (Some sline)"
  from parse_line_Some [OF this]
  show "\<exists>r. (case find_x ns ntry ''NtryDtls/TxDtls/Refs/AcctSvcrRef'' of
               None \<Rightarrow> find_x ns ntry ''AcctSvcrRef''
             | Some x \<Rightarrow> Some x) = Some r \<and>
           refnum sline = etext r"
    by blast
next
  assume h: "find_x ns ntry ''NtryDtls/TxDtls/Refs/AcctSvcrRef'' = None \<and>
    find_x ns ntry ''AcctSvcrRef'' = None \<and>
    find_x ns ntry ''CdtDbtInd'' = Some ind \<and>
    find_x ns ntry ''Amt'' = Some amtnode \<and>
    get_attr amtnode ''Ccy'' = currency st \<and>
    parse_amount pyfloat amtnode = Inr v \<and>
    parse_date strptime ns (find_x ns ntry ''ValDt'') = Inr d \<and>
    parse_date strptime ns (find_x ns ntry ''BookgDt'') = Inr du"
  then have "find_x ns ntry ''CdtDbtInd'' = Some ind" "find_x ns ntry ''Amt'' = Some amtnode"
    "get_attr amtnode ''Ccy'' = currency st" by simp_all
  from parse_line_matching [OF this, of pyfloat strptime] h
  show "parse_line pyfloat strptime ns st ntry = Inl AttributeError" by simp
qed

lemma entry_without_reference_stages:
  "find_x NS entry_without_reference ''NtryDtls/TxDtls/Refs/AcctSvcrRef'' = None \<and>
   find_x NS entry_without_reference ''AcctSvcrRef'' = None \<and>
   find_x NS entry_without_reference ''CdtDbtInd'' = Some (leaf ''CdtDbtInd'' ''CRDT'') \<and>
   find_x NS entry_without_reference ''Amt'' = Some (amount_node ''EUR'' ''10.00'') \<and>
   get_attr (amount_node ''EUR'' ''10.00'') ''Ccy'' = currency eur_statement \<and>
   parse_amount decimal_float (amount_node ''EUR'' ''10.00'') = Inr 10 \<and>
   parse_date iso_strptime NS (find_x NS entry_without_reference ''ValDt'') =
     Inr (Some \<lparr>year = 2016, month = 1, day = 1, hour = 0, minute = 0, second = 0\<rparr>) \<and>
   parse_date iso_strptime NS (find_x NS entry_without_reference ''BookgDt'') =
     Inr (Some \<lparr>year = 2015, month = 12, day = 31, hour = 0, minute = 0, second = 0\<rparr>)"
  by (simp add: entry_defs sample_defs lookup_defs instance_defs)

theorem refnum_resolution_witness:
  "parse_line decimal_float iso_strptime NS eur_statement
     (sample_entry ''OTHR'' ''EUR'' ''12.50'') =
   Inr (Some
     \<lparr>payee = Some ''UAB Pirkejas'', amount = Some (25 / 2),
      date = Some \<lparr>year = 2016, month = 1, day = 1, hour = 0, minute = 0, second = 0\<rparr>,
      date_user = Some \<lparr>year = 2015, month = 12, day = 31, hour = 0, minute = 0, second = 0\<rparr>,
      refnum = Some ''FC1261858984'', memo = None\<rparr>) \<and>
   (\<exists>r. (case find_x NS (sample_entry ''OTHR'' ''EUR'' ''12.50'')
                ''NtryDtls/TxDtls/Refs/AcctSvcrRef'' of
            None \<Rightarrow> find_x NS (sample_entry ''OTHR'' ''EUR'' ''12.50'') ''AcctSvcrRef''
          | Some x \<Rightarrow> Some x) = Some r \<and>
        Some ''FC1261858984'' = etext r) \<and>
   find_x NS entry_without_reference ''NtryDtls/TxDtls/Refs/AcctSvcrRef'' = None \<and>
   find_x NS entry_without_reference ''AcctSvcrRef'' = None \<and>
   find_x NS entry_without_reference ''CdtDbtInd'' = Some (leaf ''CdtDbtInd'' ''CRDT'') \<and>
   find_x NS entry_without_reference ''Amt'' = Some (amount_node ''EUR'' ''10.00'') \<and>
   get_attr (amount_node ''EUR'' ''10.00'') ''Ccy'' = currency eur_statement \<and>
   parse_amount decimal_float (amount_node ''EUR'' ''10.00'') = Inr 10 \<and>
   parse_date iso_strptime NS (find_x NS entry_without_reference ''ValDt'') =
     Inr (Some \<lparr>year = 2016, month = 1, day = 1, hour = 0, minute = 0, second = 0\<rparr>) \<and>
   parse_date iso_strptime NS (find_x NS entry_without_reference ''BookgDt'') =
     Inr (Some \<lparr>year = 2015, month = 12, day = 31, hour = 0, minute = 0, second = 0\<rparr>) \<and>
   parse_line decimal_float iso_strptime NS eur_statement entry_without_reference =
     Inl AttributeError"
proof -
  note t1 = refnum_resolution [of decimal_float iso_strptime NS eur_statement
      "sample_entry ''OTHR'' ''EUR'' ''12.50''"
      "\<lparr>payee = Some ''UAB Pirkejas'', amount = Some (25 / 2),
        date = Some \<lparr>year = 2016, month = 1, day = 1, hour = 0, minute = 0, second = 0\<rparr>,
        date_user = Some \<lparr>year = 2015, month = 12, day = 31, hour = 0, minute = 0, second = 0\<rparr>,
        refnum = Some ''FC1261858984'', memo = None\<rparr>", THEN conjunct1, rule_format,
      OF sample_other_line]
  note t2 = refnum_resolution [of decimal_float iso_strptime NS eur_statement
      entry_without_reference _ "leaf ''CdtDbtInd'' ''CRDT''" "amount_node ''EUR'' ''10.00''" 10
      "Some \<lparr>year = 2016, month = 1, day = 1, hour = 0, minute = 0, second = 0\<rparr>"
      "Some \<lparr>year = 2015, month = 12, day = 31, hour = 0, minute = 0, second = 0\<rparr>",
      THEN conjunct2, rule_format, OF entry_without_reference_stages]
  from t1 have a: "\<exists>r. (case find_x NS (sample_entry ''OTHR'' ''EUR'' ''12.50'')
                ''NtryDtls/TxDtls/Refs/AcctSvcrRef'' of
            None \<Rightarrow> find_x NS (sample_entry ''OTHR'' ''EUR'' ''12.50'') ''AcctSvcrRef''
          | Some x \<Rightarrow> Some x) = Some r \<and>
        Some ''FC1261858984'' = etext r"
    by simp
  from a t2 sample_other_line entry_without_reference_stages show ?thesis by blast
qed

subsection \<open>Entries in another currency\<close>

lemma parse_line_currency_only:
  assumes "currency st1 = currency st2"
  shows "parse_line pyfloat strptime ns st1 ntry = parse_line pyfloat strptime ns st2 ntry"
proof (cases "find_x ns ntry ''CdtDbtInd''")
  case None
  then show ?thesis by (simp add: parse_line_no_indicator)
next
  case (Some ind)
  note ind = this
  show ?thesis
  proof (cases "find_x ns ntry ''Amt''")
    case None
    with ind show ?thesis by (simp add: parse_line_no_amount)
  next
    case (Some amtnode)
    show ?thesis
    proof (cases "get_attr amtnode ''Ccy'' = currency st1")
      case True
      with assms have "get_attr amtnode ''Ccy'' = currency st2" by simp
      from parse_line_matching [OF ind Some True] parse_line_matching [OF ind Some this]
      show ?thesis by simp
    next
      case False
      with assms have "get_attr amtnode ''Ccy'' \<noteq> currency st2" by simp
      from parse_line_foreign [OF ind Some False] parse_line_foreign [OF ind Some this]
      show ?thesis by simp
    qed
  qed
qed

lemma parse_line_lines_irrelevant:
  "parse_line pyfloat strptime ns (st\<lparr>lines := l\<rparr>) = parse_line pyfloat strptime ns st"
  by (rule ext, rule parse_line_currency_only) simp

lemma foreign_currency_lines_irrelevant:
  "foreign_currency ns (st\<lparr>lines := l\<rparr>) ntry = foreign_currency ns st ntry"
  by (simp add: foreign_currency_def split: option.split)

lemma parse_line_None_foreign:
  assumes "parse_line pyfloat strptime ns st ntry = Inr None"
  shows "foreign_currency ns st ntry"
proof -
  obtain ind where ind: "find_x ns ntry ''CdtDbtInd'' = Some ind"
    using assms parse_line_no_indicator [of ns ntry pyfloat strptime st]
    by (cases "find_x ns ntry ''CdtDbtInd''") auto
  obtain amtnode where amt: "find_x ns ntry ''Amt'' = Some amtnode"
    using assms parse_line_no_amount [OF ind, of pyfloat strptime st]
    by (cases "find_x ns ntry ''Amt''") auto
  have "get_attr amtnode ''Ccy'' \<noteq> currency st"
  proof
    assume "get_attr amtnode ''Ccy'' = currency st"
    from assms [unfolded parse_line_matching [OF ind amt this]]
    show False by (auto split: sum.splits option.splits)
  qed
  with amt show ?thesis by (simp add: foreign_currency_def)
qed

lemma parse_line_Some_not_foreign:
  assumes "parse_line pyfloat strptime ns st ntry = Inr (Some sline)"
  shows "\<not> foreign_currency ns st ntry"
  using parse_line_Some [OF assms] by (auto simp: foreign_currency_def)

lemma parse_lines_loop_lines:
  "parse_lines_loop pyfloat strptime ns st es = Inr st' \<Longrightarrow>
   \<exists>new. st' = st\<lparr>lines := lines st @ new\<rparr> \<and>
     map (parse_line pyfloat strptime ns st) (filter (\<lambda>n. \<not> foreign_currency ns st n) es) =
     map (\<lambda>l. Inr (Some l)) new"
proof (induction es arbitrary: st)
  case Nil
  then show ?case by auto
next
  case (Cons e es)
  show ?case
  proof (cases "parse_line pyfloat strptime ns st e")
    case (Inl err)
    with Cons.prems show ?thesis by simp
  next
    case (Inr res)
    show ?thesis
    proof (cases res)
      case None
      with Inr have skip: "parse_line pyfloat strptime ns st e = Inr None" by simp
      then have "foreign_currency ns st e" by (rule parse_line_None_foreign)
      moreover from Cons.prems skip
      have "parse_lines_loop pyfloat strptime ns st es = Inr st'" by simp
      from Cons.IH [OF this] obtain new where
        "st' = st\<lparr>lines := lines st @ new\<rparr>"
        "map (parse_line pyfloat strptime ns st) (filter (\<lambda>n. \<not> foreign_currency ns st n) es) =
         map (\<lambda>l. Inr (Some l)) new"
        by blast
      ultimately show ?thesis by auto
    next
      case (Some sline)
      with Inr have line: "parse_line pyfloat strptime ns st e = Inr (Some sline)" by simp
      then have nf: "\<not> foreign_currency ns st e" by (rule parse_line_Some_not_foreign)
      from Cons.prems line
      have "parse_lines_loop pyfloat strptime ns (st\<lparr>lines := lines st @ [sline]\<rparr>) es = Inr st'"
        by simp
      from Cons.IH [OF this] obtain new where
        new: "st' = st\<lparr>lines := lines st @ [sline]\<rparr>
                \<lparr>lines := lines (st\<lparr>lines := lines st @ [sline]\<rparr>) @ new\<rparr>"
        "map (parse_line pyfloat strptime ns (st\<lparr>lines := lines st @ [sline]\<rparr>))
           (filter (\<lambda>n. \<not> foreign_currency ns (st\<lparr>lines := lines st @ [sline]\<rparr>) n) es) =
         map (\<lambda>l. Inr (Some l)) new"
        by blast
      from new(2) have "map (parse_line pyfloat strptime ns st)
           (filter (\<lambda>n. \<not> foreign_currency ns st n) es) = map (\<lambda>l. Inr (Some l)) new"
        by (simp add: parse_line_lines_irrelevant foreign_currency_lines_irrelevant)
      with new(1) nf line show ?thesis
        by (intro exI [of _ "sline # new"]) simp
    qed
  qed
qed

text \<open>
  Claim C5. An entry (with its indicator node) whose amount node has a currency
  attribute different from the statement's currency gives no line and no error. When
  \<open>_parse_lines\<close> succeeds, the lines it appends are exactly the lines of the entries
  that are not in another currency, in document order.
\<close>

theorem foreign_currency_entries_skipped:
  "(find_x ns ntry ''CdtDbtInd'' = Some ind \<and> foreign_currency ns st ntry \<longrightarrow>
      parse_line pyfloat strptime ns st ntry = Inr None) \<and>
   (parse_lines pyfloat strptime ns tree st = Inr st' \<longrightarrow>
      (\<exists>new. lines st' = lines st @ new \<and>
         map (parse_line pyfloat strptime ns st)
           (filter (\<lambda>n. \<not> foreign_currency ns st n)
              (findall_x ns tree ''BkToCstmrStmt/Stmt/Ntry'')) =
         map (\<lambda>l. Inr (Some l)) new))"
proof (intro conjI impI)
  assume h: "find_x ns ntry ''CdtDbtInd'' = Some ind \<and> foreign_currency ns st ntry"
  then obtain amtnode where "find_x ns ntry ''Amt'' = Some amtnode"
    "get_attr amtnode ''Ccy'' \<noteq> currency st"
    by (auto simp: foreign_currency_def split: option.splits)
  with h show "parse_line pyfloat strptime ns st ntry = Inr None"
    by (simp add: parse_line_foreign)
next
  assume "parse_lines pyfloat strptime ns tree st = Inr st'"
  then have "parse_lines_loop pyfloat strptime ns st
      (findall_x ns tree ''BkToCstmrStmt/Stmt/Ntry'') = Inr st'"
    by (simp add: parse_lines_def)
  from parse_lines_loop_lines [OF this]
  show "\<exists>new. lines st' = lines st @ new \<and>
         map (parse_line pyfloat strptime ns st)
           (filter (\<lambda>n. \<not> foreign_currency ns st n)
              (findall_x ns tree ''BkToCstmrStmt/Stmt/Ntry'')) =
         map (\<lambda>l. Inr (Some l)) new"
    by auto
qed

lemma sample_lines:
  "parse_lines decimal_float iso_strptime NS
     (document [sample_entry ''OTHR'' ''EUR'' ''12.50'', sample_entry ''CRDT'' ''USD'' ''7.00'',
                sample_entry ''DBIT'' ''EUR'' ''0.29'']) eur_statement =
   Inr (eur_statement\<lparr>lines :=
     [\<lparr>payee = Some ''UAB Pirkejas'', amount = Some (25 / 2),
       date = Some \<lparr>year = 2016, month = 1, day = 1, hour = 0, minute = 0, second = 0\<rparr>,
       date_user = Some \<lparr>year = 2015, month = 12, day = 31, hour = 0, minute = 0, second = 0\<rparr>,
       refnum = Some ''FC1261858984'', memo = None\<rparr>,
      \<lparr>payee = Some ''AB DNB Bankas'', amount = Some (- (29 / 100)),
       date = Some \<lparr>year = 2016, month = 1, day = 1, hour = 0, minute = 0, second = 0\<rparr>,
       date_user = Some \<lparr>year = 2015, month = 12, day = 31, hour = 0, minute = 0, second = 0\<rparr>,
       refnum = Some ''FC1261858984'', memo = None\<rparr>]\<rparr>)"
  by (simp add: parse_lines_def entry_defs sample_defs lookup_defs instance_defs)

theorem foreign_currency_entries_skipped_witness:
  "find_x NS (sample_entry ''CRDT'' ''USD'' ''7.00'') ''CdtDbtInd'' =
     Some (leaf ''CdtDbtInd'' ''CRDT'') \<and>
   foreign_currency NS eur_statement (sample_entry ''CRDT'' ''USD'' ''7.00'') \<and>
   parse_line decimal_float iso_strptime NS eur_statement
     (sample_entry ''CRDT'' ''USD'' ''7.00'') = Inr None \<and>
   (\<exists>st'. parse_lines decimal_float iso_strptime NS
       (document [sample_entry ''OTHR'' ''EUR'' ''12.50'', sample_entry ''CRDT'' ''USD'' ''7.00'',
                  sample_entry ''DBIT'' ''EUR'' ''0.29'']) eur_statement = Inr st' \<and>
     (\<exists>new. lines st' = lines eur_statement @ new \<and> length new = 2 \<and>
        map (parse_line decimal_float iso_strptime NS eur_statement)
          (filter (\<lambda>n. \<not> foreign_currency NS eur_statement n)
             (findall_x NS
                (document [sample_entry ''OTHR'' ''EUR'' ''12.50'',
                           sample_entry ''CRDT'' ''USD'' ''7.00'',
                           sample_entry ''DBIT'' ''EUR'' ''0.29''])
                ''BkToCstmrStmt/Stmt/Ntry'')) =
        map (\<lambda>l. Inr (Some l)) new))"
proof -
  have a: "find_x NS (sample_entry ''CRDT'' ''USD'' ''7.00'') ''CdtDbtInd'' =
      Some (leaf ''CdtDbtInd'' ''CRDT'')"
    by (rule sample_indicator)
  have b: "foreign_currency NS eur_statement (sample_entry ''CRDT'' ''USD'' ''7.00'')"
    by (simp add: foreign_currency_def new_Statement_def sample_defs lookup_defs)
  from a b foreign_currency_entries_skipped
    [of NS "sample_entry ''CRDT'' ''USD'' ''7.00''" _ eur_statement decimal_float iso_strptime]
  have c: "parse_line decimal_float iso_strptime NS eur_statement
     (sample_entry ''CRDT'' ''USD'' ''7.00'') = Inr None"
    by blast
  from sample_lines foreign_currency_entries_skipped
    [of NS _ _ eur_statement decimal_float iso_strptime
      "document [sample_entry ''OTHR'' ''EUR'' ''12.50'', sample_entry ''CRDT'' ''USD'' ''7.00'',
                 sample_entry ''DBIT'' ''EUR'' ''0.29'']"]
  have d: "\<exists>st'. parse_lines decimal_float iso_strptime NS
       (document [sample_entry ''OTHR'' ''EUR'' ''12.50'', sample_entry ''CRDT'' ''USD'' ''7.00'',
                  sample_entry ''DBIT'' ''EUR'' ''0.29'']) eur_statement = Inr st' \<and>
     (\<exists>new. lines st' = lines eur_statement @ new \<and> length new = 2 \<and>
        map (parse_line decimal_float iso_strptime NS eur_statement)
          (filter (\<lambda>n. \<not> foreign_currency NS eur_statement n)
             (findall_x NS
                (document [sample_entry ''OTHR'' ''EUR'' ''12.50'',
                           sample_entry ''CRDT'' ''USD'' ''7.00'',
                           sample_entry ''DBIT'' ''EUR'' ''0.29''])
                ''BkToCstmrStmt/Stmt/Ntry'')) =
        map (\<lambda>l. Inr (Some l)) new)"
    by (auto simp: eur_statement_def new_Statement_def)
  from a b c d show ?thesis by blast
qed

subsection \<open>The date normalizer\<close>

text \<open>
  Claim C6, as stated, fails on the kind of failure: a node with neither child
  ends in the AssertionError of the \<open>assert\<close>, and a text that matches no format in
  the ValueError of \<open>strptime\<close>; neither is a \<open>ParseError\<close>.
\<close>

theorem date_failure_counterexample:
  "parse_date iso_strptime NS (Some (node ''ValDt'' [])) = Inl AssertionError \<and>
   \<not> fails_with_ParseError (parse_date iso_strptime NS (Some (node ''ValDt'' []))) \<and>
   parse_date iso_strptime NS (Some (node ''ValDt'' [leaf ''Dt'' ''31.12.2015''])) =
     Inl ValueError \<and>
   \<not> fails_with_ParseError
      (parse_date iso_strptime NS (Some (node ''ValDt'' [leaf ''Dt'' ''31.12.2015''])))"
  by (simp add: fails_with_ParseError_def parse_date_def notimezone_def sample_defs
      lookup_defs instance_defs)

lemma notimezone_errors:
  "notimezone x = Inl e \<Longrightarrow> e = TypeError \<or> e = ValueError"
  by (auto simp: notimezone_def split: option.splits if_splits list.splits)

text \<open>
  Claim C6, amended. \<open>_parse_date\<close> returns \<open>None\<close> exactly when the node is \<open>None\<close>.
  For a node that is present it takes the date-only child when there is one, whatever
  else the node holds, and the date-time child otherwise; when the stripped text does
  not match the child's format the ValueError of \<open>strptime\<close> escapes, and when
  neither child is present the \<open>assert\<close> raises AssertionError. Every failure is one
  of the built-in TypeError, ValueError and AssertionError, never a \<open>ParseError\<close>.
\<close>

theorem date_normalizer:
  "(parse_date strptime ns dtnode = Inr None \<longleftrightarrow> dtnode = None) \<and>
   (dtnode = Some n \<and> find_x ns n ''Dt'' = Some d \<and> notimezone (etext d) = Inr v \<longrightarrow>
      parse_date strptime ns dtnode =
        (case strptime v DATE_FORMAT of None \<Rightarrow> Inl ValueError | Some r \<Rightarrow> Inr (Some r))) \<and>
   (dtnode = Some n \<and> find_x ns n ''Dt'' = None \<and> find_x ns n ''DtTm'' = Some t \<and>
    notimezone (etext t) = Inr v \<longrightarrow>
      parse_date strptime ns dtnode =
        (case strptime v DATETIME_FORMAT of None \<Rightarrow> Inl ValueError | Some r \<Rightarrow> Inr (Some r))) \<and>
   (dtnode = Some n \<and> find_x ns n ''Dt'' = None \<and> find_x ns n ''DtTm'' = None \<longrightarrow>
      parse_date strptime ns dtnode = Inl AssertionError) \<and>
   (dtnode = Some n \<longrightarrow>
      (\<exists>r. parse_date strptime ns dtnode = Inr (Some r)) \<or>
      parse_date strptime ns dtnode = Inl TypeError \<or>
      parse_date strptime ns dtnode = Inl ValueError \<or>
      parse_date strptime ns dtnode = Inl AssertionError)"
proof (intro conjI impI)
  show "parse_date strptime ns dtnode = Inr None \<longleftrightarrow> dtnode = None"
    by (auto simp: parse_date_def Let_def split: option.splits sum.splits)
next
  assume "dtnode = Some n \<and> find_x ns n ''Dt'' = Some d \<and> notimezone (etext d) = Inr v"
  then show "parse_date strptime ns dtnode =
      (case strptime v DATE_FORMAT of None \<Rightarrow> Inl ValueError | Some r \<Rightarrow> Inr (Some r))"
    by (simp add: parse_date_def)
next
  assume "dtnode = Some n \<and> find_x ns n ''Dt'' = None \<and> find_x ns n ''DtTm'' = Some t \<and>
    notimezone (etext t) = Inr v"
  then show "parse_date strptime ns dtnode =
      (case strptime v DATETIME_FORMAT of None \<Rightarrow> Inl ValueError | Some r \<Rightarrow> Inr (Some r))"
    by (simp add: parse_date_def)
next
  assume "dtnode = Some n \<and> find_x ns n ''Dt'' = None \<and> find_x ns n ''DtTm'' = None"
  then show "parse_date strptime ns dtnode = Inl AssertionError"
    by (simp add: parse_date_def)
next
  assume "dtnode = Some n"
  then show "(\<exists>r. parse_date strptime ns dtnode = Inr (Some r)) \<or>
      parse_date strptime ns dtnode = Inl TypeError \<or>
      parse_date strptime ns dtnode = Inl ValueError \<or>
      parse_date strptime ns dtnode = Inl AssertionError"
    using notimezone_errors
    by (auto simp: parse_date_def Let_def split: option.splits sum.splits)
qed

theorem date_normalizer_witness:
  "find_x NS (node ''ValDt'' [leaf ''DtTm'' ''2016-01-01T10:00:00'', leaf ''Dt'' ''2016-01-01+02:00''])
     ''Dt'' = Some (leaf ''Dt'' ''2016-01-01+02:00'') \<and>
   notimezone (etext (leaf ''Dt'' ''2016-01-01+02:00'')) = Inr ''2016-01-01'' \<and>
   parse_date iso_strptime NS
     (Some (node ''ValDt'' [leaf ''DtTm'' ''2016-01-01T10:00:00'', leaf ''Dt'' ''2016-01-01+02:00''])) =
     Inr (Some \<lparr>year = 2016, month = 1, day = 1, hour = 0, minute = 0, second = 0\<rparr>) \<and>
   find_x NS (node ''BookgDt'' [leaf ''DtTm'' ''2016-04-23T10:11:12'']) ''Dt'' = None \<and>
   find_x NS (node ''BookgDt'' [leaf ''DtTm'' ''2016-04-23T10:11:12'']) ''DtTm'' =
     Some (leaf ''DtTm'' ''2016-04-23T10:11:12'') \<and>
   notimezone (etext (leaf ''DtTm'' ''2016-04-23T10:11:12'')) = Inr ''2016-04-23T10:11:12'' \<and>
   parse_date iso_strptime NS (Some (node ''BookgDt'' [leaf ''DtTm'' ''2016-04-23T10:11:12''])) =
     Inr (Some \<lparr>year = 2016, month = 4, day = 23, hour = 10, minute = 11, second = 12\<rparr>) \<and>
   find_x NS (node ''ValDt'' []) ''Dt'' = None \<and>
   find_x NS (node ''ValDt'' []) ''DtTm'' = None \<and>
   parse_date iso_strptime NS (Some (node ''ValDt'' [])) = Inl AssertionError \<and>
   parse_date iso_strptime NS (Some (node ''ValDt'' [leaf ''Dt'' ''31.12.2015''])) = Inl ValueError"
proof -
  let ?n1 = "node ''ValDt'' [leaf ''DtTm'' ''2016-01-01T10:00:00'', leaf ''Dt'' ''2016-01-01+02:00'']"
  let ?n2 = "node ''BookgDt'' [leaf ''DtTm'' ''2016-04-23T10:11:12'']"
  let ?n3 = "node ''ValDt'' []"
  let ?n4 = "node ''ValDt'' [leaf ''Dt'' ''31.12.2015'']"
  have a1: "find_x NS ?n1 ''Dt'' = Some (leaf ''Dt'' ''2016-01-01+02:00'')"
    by (simp add: sample_defs lookup_defs)
  have a2: "notimezone (etext (leaf ''Dt'' ''2016-01-01+02:00'')) = Inr ''2016-01-01''"
    by (simp add: notimezone_def leaf_def)
  have b1: "find_x NS ?n2 ''Dt'' = None"
    by (simp add: sample_defs lookup_defs)
  have b2: "find_x NS ?n2 ''DtTm'' = Some (leaf ''DtTm'' ''2016-04-23T10:11:12'')"
    by (simp add: sample_defs lookup_defs)
  have b3: "notimezone (etext (leaf ''DtTm'' ''2016-04-23T10:11:12'')) = Inr ''2016-04-23T10:11:12''"
    by (simp add: notimezone_def leaf_def)
  have c1: "find_x NS ?n3 ''Dt'' = None" "find_x NS ?n3 ''DtTm'' = None"
    by (simp_all add: sample_defs lookup_defs)
  have d1: "find_x NS ?n4 ''Dt'' = Some (leaf ''Dt'' ''31.12.2015'')"
    by (simp add: sample_defs lookup_defs)
  have d2: "notimezone (etext (leaf ''Dt'' ''31.12.2015'')) = Inr ''31.12.2015''"
    by (simp add: notimezone_def leaf_def)
  have r1: "parse_date iso_strptime NS (Some ?n1) =
      Inr (Some \<lparr>year = 2016, month = 1, day = 1, hour = 0, minute = 0, second = 0\<rparr>)"
    using date_normalizer [of iso_strptime NS "Some ?n1" ?n1 "leaf ''Dt'' ''2016-01-01+02:00''"
        "''2016-01-01''"] a1 a2
    by (simp add: instance_defs)
  have r2: "parse_date iso_strptime NS (Some ?n2) =
      Inr (Some \<lparr>year = 2016, month = 4, day = 23, hour = 10, minute = 11, second = 12\<rparr>)"
    using date_normalizer [of iso_strptime NS "Some ?n2" ?n2 _ "''2016-04-23T10:11:12''"
        "leaf ''DtTm'' ''2016-04-23T10:11:12''"] b1 b2 b3
    by (simp add: instance_defs)
  have r3: "parse_date iso_strptime NS (Some ?n3) = Inl AssertionError"
    using date_normalizer [of iso_strptime NS "Some ?n3" ?n3] c1 by simp
  have r4: "parse_date iso_strptime NS (Some ?n4) = Inl ValueError"
    using date_normalizer [of iso_strptime NS "Some ?n4" ?n4 "leaf ''Dt'' ''31.12.2015''"
        "''31.12.2015''"] d1 d2
    by (simp add: instance_defs)
  from a1 a2 b1 b2 b3 c1 r1 r2 r3 r4 show ?thesis by blast
qed

subsection \<open>The stages of the statement's properties\<close>

lemma parse_statement_properties_no_stmt:
  "et_find tree [qname ns ''BkToCstmrStmt'', qname ns ''Stmt''] = None \<Longrightarrow>
   parse_statement_properties pyfloat strptime ns tree st = Inl AttributeError"
  by (simp add: parse_statement_properties_def)

lemma parse_statement_properties_no_currency:
  "et_find tree [qname ns ''BkToCstmrStmt'', qname ns ''Stmt''] = Some stmt \<Longrightarrow>
   \<not> truthy (account_currency ns stmt) \<Longrightarrow> currency st = None \<Longrightarrow>
   parse_statement_properties pyfloat strptime ns tree st =
     Inl (ParseError 0 NO_CURRENCY_MESSAGE)"
  by (simp add: parse_statement_properties_def account_currency_def)

lemma parse_statement_properties_stmt:
  assumes "et_find tree [qname ns ''BkToCstmrStmt'', qname ns ''Stmt''] = Some stmt"
    and "truthy (account_currency ns stmt) \<or> currency st \<noteq> None"
  shows "parse_statement_properties pyfloat strptime ns tree st =
    (case bal_loop pyfloat strptime ns (effective_currency ns stmt (currency st))
            (et_findall stmt [qname ns ''Bal'']) [] [] of
       Inl e \<Rightarrow> Inl e
     | Inr (bal_amts, bal_dates) \<Rightarrow>
        if bal_amts = []
        then Inl (ParseError 0 (no_balance_message (effective_currency ns stmt (currency st))))
        else
         (case et_find stmt [qname ns ''Acct'', qname ns ''Id'', qname ns ''IBAN''] of
            None \<Rightarrow> Inl AttributeError
          | Some i \<Rightarrow>
             (case map_of bal_amts (Some ''OPBD'') of
                None \<Rightarrow> Inl (KeyError ''OPBD'')
              | Some sb \<Rightarrow>
                 (case map_of bal_dates (Some ''OPBD'') of
                    None \<Rightarrow> Inl (KeyError ''OPBD'')
                  | Some sd \<Rightarrow>
                     (case map_of bal_amts (Some ''CLBD'') of
                        None \<Rightarrow> Inl (KeyError ''CLBD'')
                      | Some eb \<Rightarrow>
                         (case map_of bal_dates (Some ''CLBD'') of
                            None \<Rightarrow> Inl (KeyError ''CLBD'')
                          | Some ed \<Rightarrow>
                             Inr (st\<lparr>currency := effective_currency ns stmt (currency st),
                                     bank_id :=
                                       (case (case et_find stmt
                                                [qname ns ''Acct'', qname ns ''Svcr'',
                                                 qname ns ''FinInstnId'', qname ns ''BIC''] of
                                                None \<Rightarrow>
                                                  et_find stmt
                                                    [qname ns ''Acct'', qname ns ''Svcr'',
                                                     qname ns ''FinInstnId'', qname ns ''Nm'']
                                              | Some b \<Rightarrow> Some b) of
                                          None \<Rightarrow> None
                                        | Some b \<Rightarrow> etext b),
                                     account_id := etext i,
                                     start_balance := Some sb,
                                     start_date := sd,
                                     end_balance := Some eb,
                                     end_date := ed\<rparr>)))))))"
proof (cases "truthy (account_currency ns stmt)")
  case True
  then have eff: "effective_currency ns stmt (currency st) = account_currency ns stmt"
    by (simp add: effective_currency_def)
  from True have t: "truthy (case et_find stmt [qname ns ''Acct'', qname ns ''Ccy''] of
        None \<Rightarrow> None | Some c \<Rightarrow> etext c)"
    by (simp add: account_currency_def)
  show ?thesis
    unfolding parse_statement_properties_def Let_def eff
    by (simp add: assms(1) t account_currency_def
        split: sum.split prod.split option.split)
next
  case False
  then have eff: "effective_currency ns stmt (currency st) = currency st"
    by (simp add: effective_currency_def)
  from False have t: "\<not> truthy (case et_find stmt [qname ns ''Acct'', qname ns ''Ccy''] of
        None \<Rightarrow> None | Some c \<Rightarrow> etext c)"
    by (simp add: account_currency_def)
  from False assms(2) have c: "currency st \<noteq> None" by simp
  show ?thesis
    unfolding parse_statement_properties_def Let_def eff
    by (simp add: assms(1) t c split: sum.split prod.split option.split)
qed

lemma bal_loop_step:
  "bal_loop pyfloat strptime ns cur (bal # bals) A D =
     (case et_find bal [qname ns ''Amt''] of
        None \<Rightarrow> Inl AttributeError
      | Some a \<Rightarrow>
         if get_attr a ''Ccy'' \<noteq> cur then bal_loop pyfloat strptime ns cur bals A D
         else
          (case parse_amount pyfloat a of
             Inl e \<Rightarrow> Inl e
           | Inr v \<Rightarrow>
              (case et_find bal [qname ns ''Tp'', qname ns ''CdOrPrtry'', qname ns ''Cd''] of
                 None \<Rightarrow> Inl AttributeError
               | Some c \<Rightarrow>
                  (case parse_date strptime ns (et_find bal [qname ns ''Dt'']) of
                     Inl e \<Rightarrow> Inl e
                   | Inr d \<Rightarrow>
                      bal_loop pyfloat strptime ns cur bals
                        (AList.update (etext c) v A) (AList.update (etext c) d D)))))"
  by (simp add: Let_def)

lemma bal_loop_all_foreign:
  "\<forall>b\<in>set bals. et_find b [qname ns ''Amt''] \<noteq> None \<and> \<not> in_currency ns cur b \<Longrightarrow>
   bal_loop pyfloat strptime ns cur bals A D = Inr (A, D)"
proof (induction bals)
  case Nil
  then show ?case by simp
next
  case (Cons b bals)
  then obtain a where "et_find b [qname ns ''Amt''] = Some a" "get_attr a ''Ccy'' \<noteq> cur"
    by (auto simp: in_currency_def)
  with Cons show ?case by (simp add: bal_loop_step del: bal_loop.simps)
qed

lemma bal_loop_keys:
  "bal_loop pyfloat strptime ns cur bals A D = Inr (A', D') \<Longrightarrow> map_of A' k = Some x \<Longrightarrow>
   map_of A k \<noteq> None \<or>
   (\<exists>b\<in>set bals. in_currency ns cur b \<and>
      (\<exists>c. et_find b [qname ns ''Tp'', qname ns ''CdOrPrtry'', qname ns ''Cd''] = Some c \<and>
           etext c = k))"
proof (induction bals arbitrary: A D)
  case Nil
  then show ?case by auto
next
  case (Cons b bals)
  from Cons.prems(1) obtain a where a: "et_find b [qname ns ''Amt''] = Some a"
    by (cases "et_find b [qname ns ''Amt'']") (auto simp: bal_loop_step simp del: bal_loop.simps)
  show ?case
  proof (cases "get_attr a ''Ccy'' = cur")
    case False
    with Cons.prems(1) a have "bal_loop pyfloat strptime ns cur bals A D = Inr (A', D')"
      by (simp add: bal_loop_step del: bal_loop.simps)
    from Cons.IH [OF this Cons.prems(2)] show ?thesis by auto
  next
    case True
    with Cons.prems(1) a obtain v c d where
      c: "et_find b [qname ns ''Tp'', qname ns ''CdOrPrtry'', qname ns ''Cd''] = Some c"
      and rest: "bal_loop pyfloat strptime ns cur bals
          (AList.update (etext c) v A) (AList.update (etext c) d D) = Inr (A', D')"
      by (auto simp: bal_loop_step simp del: bal_loop.simps split: sum.splits option.splits)
    from Cons.IH [OF rest Cons.prems(2)]
    show ?thesis
    proof
      assume "map_of (AList.update (etext c) v A) k \<noteq> None"
      then have "k = etext c \<or> map_of A k \<noteq> None"
        by (auto simp: update_conv' split: if_splits)
      with a True c show ?thesis by (auto simp: in_currency_def)
    qed auto
  qed
qed

lemma parse_lines_currency:
  "parse_lines pyfloat strptime ns tree st = Inr st' \<Longrightarrow> currency st' = currency st"
proof -
  assume "parse_lines pyfloat strptime ns tree st = Inr st'"
  then have "parse_lines_loop pyfloat strptime ns st
      (findall_x ns tree ''BkToCstmrStmt/Stmt/Ntry'') = Inr st'"
    by (simp add: parse_lines_def)
  from parse_lines_loop_lines [OF this] show ?thesis by auto
qed

lemma parse_statement_properties_Inr:
  assumes ok: "parse_statement_properties pyfloat strptime ns tree st = Inr st'"
    and stmt: "et_find tree [qname ns ''BkToCstmrStmt'', qname ns ''Stmt''] = Some stmt"
  shows "(truthy (account_currency ns stmt) \<or> currency st \<noteq> None) \<and>
         currency st' = effective_currency ns stmt (currency st) \<and>
         (\<exists>A D. bal_loop pyfloat strptime ns (effective_currency ns stmt (currency st))
                  (et_findall stmt [qname ns ''Bal'']) [] [] = Inr (A, D) \<and>
                map_of A (Some ''OPBD'') = start_balance st' \<and>
                map_of A (Some ''CLBD'') = end_balance st' \<and>
                start_balance st' \<noteq> None \<and> end_balance st' \<noteq> None \<and>
                map_of D (Some ''OPBD'') = Some (start_date st') \<and>
                map_of D (Some ''CLBD'') = Some (end_date st'))"
proof -
  have cur: "truthy (account_currency ns stmt) \<or> currency st \<noteq> None"
    using ok parse_statement_properties_no_currency [OF stmt, of st pyfloat strptime] by auto
  from ok [unfolded parse_statement_properties_stmt [OF stmt cur]] cur
  show ?thesis
    by (auto split: sum.splits prod.splits if_splits option.splits)
qed

lemma parse_Inr:
  assumes "parse pyfloat strptime default_ccy doc = Inr st'"
  shows "startswith (get_namespace doc) ISO20022_NAMESPACE_ROOT \<and>
         (\<exists>st1. parse_statement_properties pyfloat strptime (get_namespace doc) doc
                   (new_Statement\<lparr>currency := default_ccy\<rparr>) = Inr st1 \<and>
                 parse_lines pyfloat strptime (get_namespace doc) doc st1 = Inr st')"
  using assms by (auto simp: parse_def Let_def split: if_splits sum.splits)

lemma parse_recognized:
  assumes "startswith (get_namespace doc) ISO20022_NAMESPACE_ROOT"
  shows "parse pyfloat strptime default_ccy doc =
    (case parse_statement_properties pyfloat strptime (get_namespace doc) doc
            (new_Statement\<lparr>currency := default_ccy\<rparr>) of
       Inl e \<Rightarrow> Inl e
     | Inr st1 \<Rightarrow> parse_lines pyfloat strptime (get_namespace doc) doc st1)"
  using assms by (simp add: parse_def Let_def)

lemma parse_currency:
  assumes ok: "parse pyfloat strptime default_ccy doc = Inr st'"
    and stmt: "et_find doc [qname (get_namespace doc) ''BkToCstmrStmt'',
                            qname (get_namespace doc) ''Stmt''] = Some stmt"
  shows "currency st' = effective_currency (get_namespace doc) stmt default_ccy"
proof -
  from parse_Inr [OF ok] obtain st1 where
    p: "parse_statement_properties pyfloat strptime (get_namespace doc) doc
          (new_Statement\<lparr>currency := default_ccy\<rparr>) = Inr st1"
    and l: "parse_lines pyfloat strptime (get_namespace doc) doc st1 = Inr st'"
    by blast
  from parse_statement_properties_Inr [OF p stmt] parse_lines_currency [OF l]
  show ?thesis by (simp add: new_Statement_def)
qed

subsection \<open>Currency resolution\<close>

text \<open>
  Claim C1. For a document in a recognized namespace with a statement element: when the
  account-level currency code is present (\<open>acctCurrency\<close> is truthy: the \<open>Ccy\<close> node
  exists and has a non-empty text), the currency of the parsed statement is that text,
  whatever the default; when it is not, the currency is the default the caller
  supplied; and when it is not and there is no default, \<open>parse\<close> raises the
  \<open>ParseError\<close> with the no-currency message.
\<close>

theorem currency_resolution:
  assumes "startswith (get_namespace doc) ISO20022_NAMESPACE_ROOT"
    and "et_find doc [qname (get_namespace doc) ''BkToCstmrStmt'',
                      qname (get_namespace doc) ''Stmt''] = Some stmt"
  shows "(truthy (account_currency (get_namespace doc) stmt) \<and>
          parse pyfloat strptime default_ccy doc = Inr st' \<longrightarrow>
            currency st' = account_currency (get_namespace doc) stmt) \<and>
         (\<not> truthy (account_currency (get_namespace doc) stmt) \<and>
          parse pyfloat strptime default_ccy doc = Inr st' \<longrightarrow>
            currency st' = default_ccy) \<and>
         (\<not> truthy (account_currency (get_namespace doc) stmt) \<and> default_ccy = None \<longrightarrow>
            parse pyfloat strptime default_ccy doc = Inl (ParseError 0 NO_CURRENCY_MESSAGE))"
proof (intro conjI impI)
  assume h: "truthy (account_currency (get_namespace doc) stmt) \<and>
          parse pyfloat strptime default_ccy doc = Inr st'"
  then have "parse pyfloat strptime default_ccy doc = Inr st'" by simp
  from parse_currency [OF this assms(2)] h
  show "currency st' = account_currency (get_namespace doc) stmt"
    by (simp add: effective_currency_def)
next
  assume h: "\<not> truthy (account_currency (get_namespace doc) stmt) \<and>
          parse pyfloat strptime default_ccy doc = Inr st'"
  then have "parse pyfloat strptime default_ccy doc = Inr st'" by simp
  from parse_currency [OF this assms(2)] h
  show "currency st' = default_ccy"
    by (simp add: effective_currency_def)
next
  assume "\<not> truthy (account_currency (get_namespace doc) stmt) \<and> default_ccy = None"
  then show "parse pyfloat strptime default_ccy doc = Inl (ParseError 0 NO_CURRENCY_MESSAGE)"
    by (simp add: parse_recognized [OF assms(1)]
        parse_statement_properties_no_currency [OF assms(2)] new_Statement_def)
qed

subsection \<open>Evaluating the sample documents\<close>

lemma namespace_document: "get_namespace (document cs) = NS"
  by (simp add: get_namespace_def document_def node_def qname_def NS_def)

lemma namespace_recognized: "startswith NS ISO20022_NAMESPACE_ROOT"
  by (simp add: startswith_def NS_def ISO20022_NAMESPACE_ROOT_def)

lemma document_stmt:
  "et_find (document cs) [qname NS ''BkToCstmrStmt'', qname NS ''Stmt''] = Some (node ''Stmt'' cs)"
  by (simp add: document_def node_def et_find_def qname_eq_iff)

lemma sample_bal_loop:
  "bal_loop decimal_float iso_strptime NS (Some ''EUR'')
     [balance ''OPBD'' ''EUR'' ''306.53'' ''2015-12-01'',
      balance ''CLBD'' ''EUR'' ''125.52'' ''2015-12-31''] [] [] =
   Inr ([(Some ''OPBD'', 30653 / 100), (Some ''CLBD'', 3138 / 25)],
        [(Some ''OPBD'', Some \<lparr>year = 2015, month = 12, day = 1, hour = 0, minute = 0, second = 0\<rparr>),
         (Some ''CLBD'', Some \<lparr>year = 2015, month = 12, day = 31, hour = 0, minute = 0, second = 0\<rparr>)])"
  by (simp add: Let_def parse_amount_def parse_date_def notimezone_def
      balance_def node_def leaf_def amount_node_def lookup_defs instance_defs)

lemma sample_properties:
  assumes "ccy = Some ''EUR'' \<or> (ccy = None \<and> dflt = Some ''EUR'')"
  shows "parse_statement_properties decimal_float iso_strptime NS
   (sample_document ccy)
   (new_Statement\<lparr>currency := dflt\<rparr>) =
  Inr \<lparr>currency = Some ''EUR'', bank_id = Some ''AGBLLT2XXXX'',
        account_id = Some ''LT000000000000000000'', start_balance = Some (30653 / 100),
        start_date = Some \<lparr>year = 2015, month = 12, day = 1, hour = 0, minute = 0, second = 0\<rparr>,
        end_balance = Some (3138 / 25),
        end_date = Some \<lparr>year = 2015, month = 12, day = 31, hour = 0, minute = 0, second = 0\<rparr>,
        lines = []\<rparr>"
proof -
  let ?stmt = "node ''Stmt'' [sample_account ccy, balance ''OPBD'' ''EUR'' ''306.53'' ''2015-12-01'',
      balance ''CLBD'' ''EUR'' ''125.52'' ''2015-12-31'', sample_entry ''DBIT'' ''EUR'' ''0.29'']"
  let ?st = "new_Statement\<lparr>currency := dflt\<rparr> :: (rat, datetime) statement"
  have cst: "currency ?st = dflt" by (simp add: new_Statement_def)
  have acct: "account_currency NS ?stmt = ccy"
    using assms by (auto simp: account_currency_def sample_defs et_find_def qname_eq_iff)
  have eff: "effective_currency NS ?stmt dflt = Some ''EUR''"
    using assms by (auto simp: effective_currency_def acct truthy_def)
  have bals: "et_findall ?stmt [qname NS ''Bal''] = [balance ''OPBD'' ''EUR'' ''306.53'' ''2015-12-01'',
      balance ''CLBD'' ''EUR'' ''125.52'' ''2015-12-31'']"
    by (simp add: sample_defs qname_eq_iff split: option.split)
  have iban: "et_find ?stmt [qname NS ''Acct'', qname NS ''Id'', qname NS ''IBAN''] = Some (leaf ''IBAN'' ''LT000000000000000000'')"
    by (simp add: sample_defs et_find_def qname_eq_iff split: option.split)
  have bic: "et_find ?stmt [qname NS ''Acct'', qname NS ''Svcr'', qname NS ''FinInstnId'', qname NS ''BIC''] = Some (leaf ''BIC'' ''AGBLLT2XXXX'')"
    by (simp add: sample_defs et_find_def qname_eq_iff split: option.split)
  have cur: "truthy (account_currency NS ?stmt) \<or> currency ?st \<noteq> None"
    using assms by (auto simp: acct truthy_def cst)
  show ?thesis
    unfolding sample_document_def
      parse_statement_properties_stmt [OF document_stmt cur] cst eff bals sample_bal_loop iban bic
    by (simp add: new_Statement_def leaf_def)
qed


lemma sample_debit_line_eur:
  assumes "currency st = Some ''EUR''"
  shows "parse_line decimal_float iso_strptime NS st (sample_entry ''DBIT'' ''EUR'' ''0.29'') =
   Inr (Some
     \<lparr>payee = Some ''AB DNB Bankas'', amount = Some (- (29 / 100)),
      date = Some \<lparr>year = 2016, month = 1, day = 1, hour = 0, minute = 0, second = 0\<rparr>,
      date_user = Some \<lparr>year = 2015, month = 12, day = 31, hour = 0, minute = 0, second = 0\<rparr>,
      refnum = Some ''FC1261858984'', memo = None\<rparr>)"
proof -
  from assms have "currency st = currency eur_statement"
    by (simp add: eur_statement_def new_Statement_def)
  from parse_line_currency_only [OF this] sample_debit_line show ?thesis by simp
qed

lemma sample_document_namespace: "get_namespace (sample_document ccy) = NS"
  by (simp add: sample_document_def namespace_document)

lemma sample_document_stmt:
  "et_find (sample_document ccy) [qname NS ''BkToCstmrStmt'', qname NS ''Stmt''] =
     Some (node ''Stmt''
       [sample_account ccy,
        balance ''OPBD'' ''EUR'' ''306.53'' ''2015-12-01'',
        balance ''CLBD'' ''EUR'' ''125.52'' ''2015-12-31'',
        sample_entry ''DBIT'' ''EUR'' ''0.29''])"
  by (simp add: sample_document_def document_stmt)

lemma sample_account_currency:
  "account_currency NS (node ''Stmt'' (sample_account ccy # bals)) =
     (case ccy of None \<Rightarrow> account_currency NS (node ''Stmt'' bals) | Some c \<Rightarrow> Some c)"
  by (simp add: account_currency_def sample_account_def node_def leaf_def et_find_def
      qname_eq_iff split: option.split list.split)

lemma sample_parse:
  assumes "ccy = Some ''EUR'' \<or> (ccy = None \<and> dflt = Some ''EUR'')"
  shows "parse decimal_float iso_strptime dflt (sample_document ccy) =
    Inr \<lparr>currency = Some ''EUR'', bank_id = Some ''AGBLLT2XXXX'',
          account_id = Some ''LT000000000000000000'', start_balance = Some (30653 / 100),
          start_date = Some \<lparr>year = 2015, month = 12, day = 1, hour = 0, minute = 0, second = 0\<rparr>,
          end_balance = Some (3138 / 25),
          end_date = Some \<lparr>year = 2015, month = 12, day = 31, hour = 0, minute = 0, second = 0\<rparr>,
          lines =
            [\<lparr>payee = Some ''AB DNB Bankas'', amount = Some (- (29 / 100)),
              date = Some \<lparr>year = 2016, month = 1, day = 1, hour = 0, minute = 0, second = 0\<rparr>,
              date_user = Some \<lparr>year = 2015, month = 12, day = 31, hour = 0, minute = 0, second = 0\<rparr>,
              refnum = Some ''FC1261858984'', memo = None\<rparr>]\<rparr>"
proof -
  have rec: "startswith (get_namespace (sample_document ccy)) ISO20022_NAMESPACE_ROOT"
    by (simp add: sample_document_namespace namespace_recognized)
  have entries: "findall_x NS (sample_document ccy) ''BkToCstmrStmt/Stmt/Ntry'' =
      [sample_entry ''DBIT'' ''EUR'' ''0.29'']"
    by (simp add: sample_document_def document_def balance_def sample_account_def
        sample_entry_def node_def findall_x_def toxpath_def qname_eq_iff)
  show ?thesis
    unfolding parse_recognized [OF rec] sample_document_namespace sample_properties [OF assms]
    by (simp add: parse_lines_def entries sample_debit_line_eur)
qed

theorem currency_resolution_witness:
  "startswith (get_namespace (sample_document (Some ''EUR''))) ISO20022_NAMESPACE_ROOT \<and>
   startswith (get_namespace (sample_document None)) ISO20022_NAMESPACE_ROOT \<and>
   truthy (account_currency NS (node ''Stmt''
       [sample_account (Some ''EUR''),
        balance ''OPBD'' ''EUR'' ''306.53'' ''2015-12-01'',
        balance ''CLBD'' ''EUR'' ''125.52'' ''2015-12-31'',
        sample_entry ''DBIT'' ''EUR'' ''0.29''])) \<and>
   \<not> truthy (account_currency NS (node ''Stmt''
       [sample_account None,
        balance ''OPBD'' ''EUR'' ''306.53'' ''2015-12-01'',
        balance ''CLBD'' ''EUR'' ''125.52'' ''2015-12-31'',
        sample_entry ''DBIT'' ''EUR'' ''0.29''])) \<and>
   map_sum id currency (parse decimal_float iso_strptime (Some ''USD'')
     (sample_document (Some ''EUR''))) = Inr (Some ''EUR'') \<and>
   map_sum id currency (parse decimal_float iso_strptime (Some ''EUR'')
     (sample_document None)) = Inr (Some ''EUR'') \<and>
   parse decimal_float iso_strptime None (sample_document None) =
     (Inl (ParseError 0 NO_CURRENCY_MESSAGE) :: error + (rat, datetime) statement)"
proof -
  let ?stmt = "\<lambda>ccy. node ''Stmt''
       [sample_account ccy,
        balance ''OPBD'' ''EUR'' ''306.53'' ''2015-12-01'',
        balance ''CLBD'' ''EUR'' ''125.52'' ''2015-12-31'',
        sample_entry ''DBIT'' ''EUR'' ''0.29'']"
  have rec: "\<And>ccy. startswith (get_namespace (sample_document ccy)) ISO20022_NAMESPACE_ROOT"
    by (simp add: sample_document_namespace namespace_recognized)
  have stmt: "\<And>ccy. et_find (sample_document ccy)
      [qname (get_namespace (sample_document ccy)) ''BkToCstmrStmt'',
       qname (get_namespace (sample_document ccy)) ''Stmt''] = Some (?stmt ccy)"
    by (simp add: sample_document_namespace sample_document_stmt)
  have yes: "truthy (account_currency NS (?stmt (Some ''EUR'')))"
    by (simp add: sample_account_currency truthy_def)
  have no: "\<not> truthy (account_currency NS (?stmt None))"
    by (simp add: account_currency_def truthy_def sample_defs et_find_def qname_eq_iff)
  have p1: "parse decimal_float iso_strptime (Some ''USD'') (sample_document (Some ''EUR'')) =
      Inr (projr (parse decimal_float iso_strptime (Some ''USD'') (sample_document (Some ''EUR''))))"
    by (simp add: sample_parse)
  have p2: "parse decimal_float iso_strptime (Some ''EUR'') (sample_document None) =
      Inr (projr (parse decimal_float iso_strptime (Some ''EUR'') (sample_document None)))"
    by (simp add: sample_parse)
  note t1 = currency_resolution [OF rec stmt, of "Some ''EUR''" decimal_float iso_strptime
      "Some ''USD''", unfolded sample_document_namespace, THEN conjunct1, rule_format,
      OF conjI, OF yes p1]
  note t2 = currency_resolution [OF rec stmt, of None decimal_float iso_strptime
      "Some ''EUR''", unfolded sample_document_namespace, THEN conjunct2, THEN conjunct1,
      rule_format, OF conjI, OF no p2]
  have t3: "parse decimal_float iso_strptime None (sample_document None) =
     (Inl (ParseError 0 NO_CURRENCY_MESSAGE) :: error + (rat, datetime) statement)"
    using currency_resolution [OF rec stmt, of None decimal_float iso_strptime None,
      unfolded sample_document_namespace] no by blast
  have c1: "map_sum id currency (parse decimal_float iso_strptime (Some ''USD'')
     (sample_document (Some ''EUR''))) = Inr (Some ''EUR'')"
    by (subst p1) (simp add: t1 sample_account_currency)
  have c2: "map_sum id currency (parse decimal_float iso_strptime (Some ''EUR'')
     (sample_document None)) = Inr (Some ''EUR'')"
    by (subst p2) (simp add: t2)
  from rec yes no c1 c2 t3 show ?thesis by blast
qed

subsection \<open>Balance reconciliation\<close>

lemma bal_loop_code_present:
  assumes "bal_loop pyfloat strptime ns cur bals [] [] = Inr (A, D)"
    and "map_of A (Some code) = Some x"
  shows "\<exists>b\<in>set bals. in_currency ns cur b \<and> has_code ns code b"
  using bal_loop_keys [OF assms] by (auto simp: has_code_def)

lemma eur_account_stmt:
  "account_currency NS (node ''Stmt'' (sample_account (Some ''EUR'') # rest)) = Some ''EUR'' \<and>
   effective_currency NS (node ''Stmt'' (sample_account (Some ''EUR'') # rest)) dflt =
     Some ''EUR'' \<and>
   et_findall (node ''Stmt'' (sample_account (Some ''EUR'') # rest)) [qname NS ''Bal''] =
     filter (\<lambda>c. tag c = qname NS ''Bal'') rest"
proof -
  have ac: "account_currency NS (node ''Stmt'' (sample_account (Some ''EUR'') # rest)) =
      Some ''EUR''"
    by (simp add: sample_account_currency)
  have bals: "et_findall (node ''Stmt'' (sample_account (Some ''EUR'') # rest))
      [qname NS ''Bal''] = filter (\<lambda>c. tag c = qname NS ''Bal'') rest"
    by (simp add: node_def sample_account_def qname_eq_iff)
  from ac bals show ?thesis by (simp add: effective_currency_def truthy_def)
qed

lemma eur_account_iban:
  "et_find (node ''Stmt'' (sample_account (Some ''EUR'') # rest))
     [qname NS ''Acct'', qname NS ''Id'', qname NS ''IBAN''] =
   Some (leaf ''IBAN'' ''LT000000000000000000'')"
  by (simp add: sample_account_def node_def leaf_def et_find_def qname_eq_iff)

lemma eur_document_properties:
  "parse decimal_float iso_strptime dflt (document (sample_account (Some ''EUR'') # rest)) =
   (case parse_statement_properties decimal_float iso_strptime NS
           (document (sample_account (Some ''EUR'') # rest))
           (new_Statement\<lparr>currency := dflt\<rparr>) of
      Inl e \<Rightarrow> Inl e
    | Inr st1 \<Rightarrow>
        parse_lines decimal_float iso_strptime NS
          (document (sample_account (Some ''EUR'') # rest)) st1) \<and>
   parse_statement_properties decimal_float iso_strptime NS
     (document (sample_account (Some ''EUR'') # rest))
     (new_Statement\<lparr>currency := dflt\<rparr>) =
   (case bal_loop decimal_float iso_strptime NS (Some ''EUR'')
           (filter (\<lambda>c. tag c = qname NS ''Bal'') rest) [] [] of
      Inl e \<Rightarrow> Inl e
    | Inr (A, D) \<Rightarrow>
        if A = [] then Inl (ParseError 0 (no_balance_message (Some ''EUR'')))
        else
         (case map_of A (Some ''OPBD'') of
            None \<Rightarrow> Inl (KeyError ''OPBD'')
          | Some sb \<Rightarrow>
             (case map_of D (Some ''OPBD'') of
                None \<Rightarrow> Inl (KeyError ''OPBD'')
              | Some sd \<Rightarrow>
                 (case map_of A (Some ''CLBD'') of
                    None \<Rightarrow> Inl (KeyError ''CLBD'')
                  | Some eb \<Rightarrow>
                     (case map_of D (Some ''CLBD'') of
                        None \<Rightarrow> Inl (KeyError ''CLBD'')
                      | Some ed \<Rightarrow>
                         Inr \<lparr>currency = Some ''EUR'', bank_id = Some ''AGBLLT2XXXX'',
                              account_id = Some ''LT000000000000000000'',
                              start_balance = Some sb, start_date = sd,
                              end_balance = Some eb, end_date = ed, lines = []\<rparr>)))))"
proof -
  let ?stmt = "node ''Stmt'' (sample_account (Some ''EUR'') # rest)"
  let ?st = "new_Statement\<lparr>currency := dflt\<rparr> :: (rat, datetime) statement"
  have rec: "startswith (get_namespace (document (sample_account (Some ''EUR'') # rest)))
      ISO20022_NAMESPACE_ROOT"
    by (simp add: namespace_document namespace_recognized)
  have cst: "currency ?st = dflt" by (simp add: new_Statement_def)
  have cur: "truthy (account_currency NS ?stmt) \<or> currency ?st \<noteq> None"
    by (simp add: eur_account_stmt truthy_def)
  have bic: "et_find ?stmt [qname NS ''Acct'', qname NS ''Svcr'', qname NS ''FinInstnId'',
      qname NS ''BIC''] = Some (leaf ''BIC'' ''AGBLLT2XXXX'')"
    by (simp add: sample_account_def node_def leaf_def et_find_def qname_eq_iff)
  have e1: "effective_currency NS ?stmt dflt = Some ''EUR''"
    and e2: "et_findall ?stmt [qname NS ''Bal''] = filter (\<lambda>c. tag c = qname NS ''Bal'') rest"
    using eur_account_stmt [of rest dflt] by simp_all
  show ?thesis
    unfolding parse_recognized [OF rec] namespace_document
      parse_statement_properties_stmt [OF document_stmt cur] cst e1 e2 eur_account_iban bic
    by (simp add: new_Statement_def leaf_def split: sum.split prod.split option.split)
qed

lemmas balance_defs = balance_def node_def leaf_def amount_node_def qname_eq_iff Let_def
  parse_amount_def parse_date_def notimezone_def find_x_def et_find_def toxpath_def get_attr_def

text \<open>
  Claim C3, as stated, fails: when the opening balance survives the currency filter
  and the closing balance does not, \<open>bal_amts\<close> is not empty, the guard
  \<open>if not bal_amts\<close> does not fire, and \<open>bal_amts['CLBD']\<close> raises KeyError: the
  parse fails, but not with the \<open>ParseError\<close> of the guard.
\<close>

theorem one_balance_counterexample:
  "parse decimal_float iso_strptime None
     (document [sample_account (Some ''EUR''),
                balance ''OPBD'' ''EUR'' ''306.53'' ''2015-12-01'',
                balance ''CLBD'' ''USD'' ''125.52'' ''2015-12-31'']) =
     (Inl (KeyError ''CLBD'') :: error + (rat, datetime) statement) \<and>
   \<not> fails_with_ParseError
      (parse decimal_float iso_strptime None
         (document [sample_account (Some ''EUR''),
                    balance ''OPBD'' ''EUR'' ''306.53'' ''2015-12-01'',
                    balance ''CLBD'' ''USD'' ''125.52'' ''2015-12-31''])
       :: error + (rat, datetime) statement)"
  by (simp add: eur_document_properties fails_with_ParseError_def balance_defs instance_defs)

text \<open>
  Claim C3, amended. For a document in a recognized namespace with a statement
  element: when the currency resolves and every balance entry has an amount node in
  another currency, so that no balance entry survives the filter, \<open>parse\<close> raises
  the \<open>ParseError\<close> with the no-balance message; and whenever \<open>parse\<close> succeeds, an
  entry coded \<open>OPBD\<close> and an entry coded \<open>CLBD\<close> in the statement's currency exist,
  so a missing balance is never replaced by a default.
\<close>

theorem balance_reconciliation:
  assumes "startswith (get_namespace doc) ISO20022_NAMESPACE_ROOT"
    and "et_find doc [qname (get_namespace doc) ''BkToCstmrStmt'',
                      qname (get_namespace doc) ''Stmt''] = Some stmt"
  shows "((truthy (account_currency (get_namespace doc) stmt) \<or> default_ccy \<noteq> None) \<and>
          (\<forall>b\<in>set (et_findall stmt [qname (get_namespace doc) ''Bal'']).
             et_find b [qname (get_namespace doc) ''Amt''] \<noteq> None \<and>
             \<not> in_currency (get_namespace doc)
                 (effective_currency (get_namespace doc) stmt default_ccy) b) \<longrightarrow>
            parse pyfloat strptime default_ccy doc =
              Inl (ParseError 0
                (no_balance_message
                   (effective_currency (get_namespace doc) stmt default_ccy)))) \<and>
         (parse pyfloat strptime default_ccy doc = Inr st' \<longrightarrow>
            (\<exists>b\<in>set (et_findall stmt [qname (get_namespace doc) ''Bal'']).
               in_currency (get_namespace doc) (currency st') b \<and>
               has_code (get_namespace doc) ''OPBD'' b) \<and>
            (\<exists>b\<in>set (et_findall stmt [qname (get_namespace doc) ''Bal'']).
               in_currency (get_namespace doc) (currency st') b \<and>
               has_code (get_namespace doc) ''CLBD'' b))"
proof (rule conjI; rule impI)
  let ?ns = "get_namespace doc"
  let ?cur = "effective_currency ?ns stmt default_ccy"
  let ?st = "new_Statement\<lparr>currency := default_ccy\<rparr> :: ('a, 'b) statement"
  assume h: "(truthy (account_currency ?ns stmt) \<or> default_ccy \<noteq> None) \<and>
          (\<forall>b\<in>set (et_findall stmt [qname ?ns ''Bal'']).
             et_find b [qname ?ns ''Amt''] \<noteq> None \<and> \<not> in_currency ?ns ?cur b)"
  have cst: "currency ?st = default_ccy" by (simp add: new_Statement_def)
  from h have cur: "truthy (account_currency ?ns stmt) \<or> currency ?st \<noteq> None"
    by (simp add: cst)
  from h have "bal_loop pyfloat strptime ?ns ?cur (et_findall stmt [qname ?ns ''Bal'']) [] [] =
      Inr ([], [])"
    by (intro bal_loop_all_foreign) simp
  then have "parse_statement_properties pyfloat strptime ?ns doc ?st =
      Inl (ParseError 0 (no_balance_message ?cur))"
    unfolding parse_statement_properties_stmt [OF assms(2) cur] cst by simp
  then show "parse pyfloat strptime default_ccy doc =
      Inl (ParseError 0 (no_balance_message ?cur))"
    by (simp add: parse_recognized [OF assms(1)])
next
  let ?ns = "get_namespace doc"
  assume ok: "parse pyfloat strptime default_ccy doc = Inr st'"
  from parse_Inr [OF ok] obtain st1 where
    p: "parse_statement_properties pyfloat strptime ?ns doc
          (new_Statement\<lparr>currency := default_ccy\<rparr>) = Inr st1"
    and l: "parse_lines pyfloat strptime ?ns doc st1 = Inr st'"
    by blast
  have cst: "currency (new_Statement\<lparr>currency := default_ccy\<rparr> :: ('a, 'b) statement) =
      default_ccy"
    by (simp add: new_Statement_def)
  note facts = parse_statement_properties_Inr [OF p assms(2), unfolded cst]
  from facts have c1: "currency st1 = effective_currency ?ns stmt default_ccy" by blast
  from facts obtain A D where
    loop: "bal_loop pyfloat strptime ?ns (effective_currency ?ns stmt default_ccy)
        (et_findall stmt [qname ?ns ''Bal'']) [] [] = Inr (A, D)"
    and k1: "map_of A (Some ''OPBD'') \<noteq> None" and k2: "map_of A (Some ''CLBD'') \<noteq> None"
    by auto
  from k1 k2 obtain sb eb where
    keys: "map_of A (Some ''OPBD'') = Some sb" "map_of A (Some ''CLBD'') = Some eb"
    by auto
  from parse_lines_currency [OF l] c1
  have c: "currency st' = effective_currency ?ns stmt default_ccy" by simp
  from bal_loop_code_present [OF loop keys(1)] bal_loop_code_present [OF loop keys(2)] c
  show "(\<exists>b\<in>set (et_findall stmt [qname ?ns ''Bal'']).
               in_currency ?ns (currency st') b \<and> has_code ?ns ''OPBD'' b) \<and>
        (\<exists>b\<in>set (et_findall stmt [qname ?ns ''Bal'']).
               in_currency ?ns (currency st') b \<and> has_code ?ns ''CLBD'' b)"
    by simp
qed

theorem balance_reconciliation_witness:
  "et_findall
     (node ''Stmt'' [sample_account (Some ''EUR''),
        balance ''OPBD'' ''USD'' ''306.53'' ''2015-12-01'',
        balance ''CLBD'' ''USD'' ''125.52'' ''2015-12-31''])
     [qname NS ''Bal''] =
     [balance ''OPBD'' ''USD'' ''306.53'' ''2015-12-01'',
      balance ''CLBD'' ''USD'' ''125.52'' ''2015-12-31''] \<and>
   et_find (balance ''OPBD'' ''USD'' ''306.53'' ''2015-12-01'') [qname NS ''Amt''] \<noteq> None \<and>
   \<not> in_currency NS (Some ''EUR'') (balance ''OPBD'' ''USD'' ''306.53'' ''2015-12-01'') \<and>
   et_find (balance ''CLBD'' ''USD'' ''125.52'' ''2015-12-31'') [qname NS ''Amt''] \<noteq> None \<and>
   \<not> in_currency NS (Some ''EUR'') (balance ''CLBD'' ''USD'' ''125.52'' ''2015-12-31'') \<and>
   parse decimal_float iso_strptime None
     (document [sample_account (Some ''EUR''),
        balance ''OPBD'' ''USD'' ''306.53'' ''2015-12-01'',
        balance ''CLBD'' ''USD'' ''125.52'' ''2015-12-31'']) =
     (Inl (ParseError 0 (no_balance_message (Some ''EUR''))) :: error + (rat, datetime) statement) \<and>
   map_sum id currency (parse decimal_float iso_strptime None (sample_document (Some ''EUR''))) =
     Inr (Some ''EUR'') \<and>
   (\<exists>b\<in>set (et_findall
        (node ''Stmt'' [sample_account (Some ''EUR''),
           balance ''OPBD'' ''EUR'' ''306.53'' ''2015-12-01'',
           balance ''CLBD'' ''EUR'' ''125.52'' ''2015-12-31'',
           sample_entry ''DBIT'' ''EUR'' ''0.29''])
        [qname NS ''Bal'']).
      in_currency NS (Some ''EUR'') b \<and> has_code NS ''OPBD'' b) \<and>
   (\<exists>b\<in>set (et_findall
        (node ''Stmt'' [sample_account (Some ''EUR''),
           balance ''OPBD'' ''EUR'' ''306.53'' ''2015-12-01'',
           balance ''CLBD'' ''EUR'' ''125.52'' ''2015-12-31'',
           sample_entry ''DBIT'' ''EUR'' ''0.29''])
        [qname NS ''Bal'']).
      in_currency NS (Some ''EUR'') b \<and> has_code NS ''CLBD'' b)"
proof -
  let ?usd = "[sample_account (Some ''EUR''),
        balance ''OPBD'' ''USD'' ''306.53'' ''2015-12-01'',
        balance ''CLBD'' ''USD'' ''125.52'' ''2015-12-31'']"
  let ?eur = "[sample_account (Some ''EUR''),
        balance ''OPBD'' ''EUR'' ''306.53'' ''2015-12-01'',
        balance ''CLBD'' ''EUR'' ''125.52'' ''2015-12-31'',
        sample_entry ''DBIT'' ''EUR'' ''0.29'']"
  have rec: "\<And>cs. startswith (get_namespace (document cs)) ISO20022_NAMESPACE_ROOT"
    by (simp add: namespace_document namespace_recognized)
  have stmt: "\<And>cs. et_find (document cs)
      [qname (get_namespace (document cs)) ''BkToCstmrStmt'',
       qname (get_namespace (document cs)) ''Stmt''] = Some (node ''Stmt'' cs)"
    by (simp add: namespace_document document_stmt)
  have eff: "effective_currency NS (node ''Stmt'' ?usd) None = Some ''EUR''"
    using eur_account_stmt by blast
  have yes: "truthy (account_currency NS (node ''Stmt'' ?usd))"
    by (simp add: sample_account_currency truthy_def)
  have all: "\<forall>b\<in>set (et_findall (node ''Stmt'' ?usd) [qname NS ''Bal'']).
      et_find b [qname NS ''Amt''] \<noteq> None \<and> \<not> in_currency NS (Some ''EUR'') b"
    by (simp add: in_currency_def sample_defs et_find_def get_attr_def qname_eq_iff)
  from balance_reconciliation [OF rec stmt, of ?usd None decimal_float iso_strptime,
      unfolded namespace_document eff] yes all
  have a: "parse decimal_float iso_strptime None (document ?usd) =
     (Inl (ParseError 0 (no_balance_message (Some ''EUR''))) :: error + (rat, datetime) statement)"
    by blast
  have p: "parse decimal_float iso_strptime None (sample_document (Some ''EUR'')) =
      Inr (projr (parse decimal_float iso_strptime None (sample_document (Some ''EUR''))))"
    by (simp add: sample_parse)
  have c: "currency (projr (parse decimal_float iso_strptime None
      (sample_document (Some ''EUR'')))) = Some ''EUR''"
    by (simp add: sample_parse)
  from balance_reconciliation [OF rec stmt, of ?eur None decimal_float iso_strptime,
      unfolded namespace_document, THEN conjunct2, rule_format,
      OF p [unfolded sample_document_def], folded sample_document_def, unfolded c]
  have b: "(\<exists>b\<in>set (et_findall (node ''Stmt'' ?eur) [qname NS ''Bal'']).
      in_currency NS (Some ''EUR'') b \<and> has_code NS ''OPBD'' b) \<and>
   (\<exists>b\<in>set (et_findall (node ''Stmt'' ?eur) [qname NS ''Bal'']).
      in_currency NS (Some ''EUR'') b \<and> has_code NS ''CLBD'' b)" .
  have d: "map_sum id currency (parse decimal_float iso_strptime None
      (sample_document (Some ''EUR''))) = Inr (Some ''EUR'')"
    by (simp add: sample_parse)
  have bals: "et_findall (node ''Stmt'' ?usd) [qname NS ''Bal''] =
     [balance ''OPBD'' ''USD'' ''306.53'' ''2015-12-01'',
      balance ''CLBD'' ''USD'' ''125.52'' ''2015-12-31'']"
    by (simp add: sample_defs qname_eq_iff)
  from all [unfolded bals] have each:
    "et_find (balance ''OPBD'' ''USD'' ''306.53'' ''2015-12-01'') [qname NS ''Amt''] \<noteq> None"
    "\<not> in_currency NS (Some ''EUR'') (balance ''OPBD'' ''USD'' ''306.53'' ''2015-12-01'')"
    "et_find (balance ''CLBD'' ''USD'' ''125.52'' ''2015-12-31'') [qname NS ''Amt''] \<noteq> None"
    "\<not> in_currency NS (Some ''EUR'') (balance ''CLBD'' ''USD'' ''125.52'' ''2015-12-31'')"
    by simp_all
  from bals each a b d show ?thesis by blast
qed

subsection \<open>Balance entries with other codes\<close>

lemma et_findall_children_filter:
  assumes "children e' = filter (\<lambda>c. \<not> other_balance ns c) (children e)"
  shows "t \<noteq> qname ns ''Bal'' \<Longrightarrow> et_findall e' (t # ts) = et_findall e (t # ts)"
    and "et_findall e' [qname ns ''Bal''] =
         filter (\<lambda>c. \<not> other_balance ns c) (et_findall e [qname ns ''Bal''])"
proof -
  assume t: "t \<noteq> qname ns ''Bal''"
  have "filter (\<lambda>c. tag c = t) (filter (\<lambda>c. \<not> other_balance ns c) (children e)) =
      filter (\<lambda>c. tag c = t) (children e)"
    using t by (auto simp: other_balance_def intro: filter_cong)
  then show "et_findall e' (t # ts) = et_findall e (t # ts)"
    by (simp add: assms)
next
  have "filter (\<lambda>c. tag c = qname ns ''Bal'')
        (filter (\<lambda>c. \<not> other_balance ns c) (children e)) =
      filter (\<lambda>c. \<not> other_balance ns c)
        (filter (\<lambda>c. tag c = qname ns ''Bal'') (children e))"
    by (auto intro: filter_cong)
  then show "et_findall e' [qname ns ''Bal''] =
         filter (\<lambda>c. \<not> other_balance ns c) (et_findall e [qname ns ''Bal''])"
    by (simp add: assms)
qed

lemma same_balances_update:
  "same_balances A B \<Longrightarrow> same_balances (AList.update k v A) (AList.update k v B)"
  by (simp add: same_balances_def update_conv')

lemma same_balances_other:
  "same_balances A B \<Longrightarrow> k \<noteq> Some ''OPBD'' \<Longrightarrow> k \<noteq> Some ''CLBD'' \<Longrightarrow>
   same_balances A (AList.update k v B)"
  by (simp add: same_balances_def update_conv')

lemma bal_loop_drop_other:
  assumes "bal_loop pyfloat strptime ns cur bals A D = Inr (A', D')"
    and "same_balances A1 A" and "same_balances D1 D"
  shows "\<exists>A1' D1'.
           bal_loop pyfloat strptime ns cur (filter (\<lambda>b. \<not> other_balance ns b) bals) A1 D1 =
             Inr (A1', D1') \<and>
           same_balances A1' A' \<and> same_balances D1' D'"
  using assms
proof (induction bals arbitrary: A D A1 D1)
  case Nil
  then show ?case by simp
next
  case (Cons b bals)
  from Cons.prems(1) obtain a where a: "et_find b [qname ns ''Amt''] = Some a"
    by (cases "et_find b [qname ns ''Amt'']") (auto simp: bal_loop_step simp del: bal_loop.simps)
  show ?case
  proof (cases "get_attr a ''Ccy'' = cur")
    case False
    with Cons.prems(1) a have rest: "bal_loop pyfloat strptime ns cur bals A D = Inr (A', D')"
      by (simp add: bal_loop_step del: bal_loop.simps)
    from Cons.IH [OF rest Cons.prems(2,3)] a False show ?thesis
      by (simp add: bal_loop_step del: bal_loop.simps)
  next
    case True
    with Cons.prems(1) a obtain v c d where
      v: "parse_amount pyfloat a = Inr v"
      and c: "et_find b [qname ns ''Tp'', qname ns ''CdOrPrtry'', qname ns ''Cd''] = Some c"
      and d: "parse_date strptime ns (et_find b [qname ns ''Dt'']) = Inr d"
      and rest: "bal_loop pyfloat strptime ns cur bals
          (AList.update (etext c) v A) (AList.update (etext c) d D) = Inr (A', D')"
      by (auto simp: bal_loop_step simp del: bal_loop.simps split: sum.splits option.splits)
    show ?thesis
    proof (cases "other_balance ns b")
      case True
      with c have k: "etext c \<noteq> Some ''OPBD''" "etext c \<noteq> Some ''CLBD''"
        by (simp_all add: other_balance_def)
      from Cons.prems(2,3) k
      have "same_balances A1 (AList.update (etext c) v A)"
        "same_balances D1 (AList.update (etext c) d D)"
        by (simp_all add: same_balances_other)
      from Cons.IH [OF rest this] True show ?thesis by simp
    next
      case False
      from Cons.prems(2,3)
      have "same_balances (AList.update (etext c) v A1) (AList.update (etext c) v A)"
        "same_balances (AList.update (etext c) d D1) (AList.update (etext c) d D)"
        by (simp_all add: same_balances_update)
      from Cons.IH [OF rest this] False a \<open>get_attr a ''Ccy'' = cur\<close> v c d show ?thesis
        by (simp add: bal_loop_step del: bal_loop.simps)
    qed
  qed
qed

lemma et_find_children_filter:
  assumes "children e' = filter (\<lambda>c. \<not> other_balance ns c) (children e)"
    and "t \<noteq> ''Bal''"
  shows "et_find e' (qname ns t # ts) = et_find e (qname ns t # ts)"
  unfolding et_find_def
  using et_findall_children_filter(1) [OF assms(1), of "qname ns t" ts] assms(2)
  by (simp add: qname_eq_iff)

text \<open>
  Claim C7, as stated, fails: an entry with another code in the effective currency is
  parsed and stored like any other. Alone, it keeps the no-balance guard from firing
  (the parse then ends in KeyError instead of the \<open>ParseError\<close> of the guard); with
  a bad amount text it fails a parse that succeeds without it.
\<close>

theorem other_code_counterexample:
  "parse_statement_properties decimal_float iso_strptime NS
     (document [sample_account (Some ''EUR''),
        balance ''ITBD'' ''EUR'' ''10.00'' ''2015-12-15''])
     (new_Statement\<lparr>currency := None\<rparr>) =
     (Inl (KeyError ''OPBD'') :: error + (rat, datetime) statement) \<and>
   parse_statement_properties decimal_float iso_strptime NS
     (document [sample_account (Some ''EUR'')])
     (new_Statement\<lparr>currency := None\<rparr>) =
     (Inl (ParseError 0 (no_balance_message (Some ''EUR'')))
        :: error + (rat, datetime) statement) \<and>
   parse_statement_properties decimal_float iso_strptime NS
     (document [sample_account (Some ''EUR''),
        balance ''ITBD'' ''EUR'' ''n/a'' ''2015-12-15'',
        balance ''OPBD'' ''EUR'' ''306.53'' ''2015-12-01'',
        balance ''CLBD'' ''EUR'' ''125.52'' ''2015-12-31''])
     (new_Statement\<lparr>currency := None\<rparr>) =
     (Inl ValueError :: error + (rat, datetime) statement) \<and>
   parse_statement_properties decimal_float iso_strptime NS
     (document [sample_account (Some ''EUR''),
        balance ''OPBD'' ''EUR'' ''306.53'' ''2015-12-01'',
        balance ''CLBD'' ''EUR'' ''125.52'' ''2015-12-31''])
     (new_Statement\<lparr>currency := None\<rparr>) =
     (Inr \<lparr>currency = Some ''EUR'', bank_id = Some ''AGBLLT2XXXX'',
           account_id = Some ''LT000000000000000000'', start_balance = Some (30653 / 100),
           start_date = Some \<lparr>year = 2015, month = 12, day = 1, hour = 0, minute = 0, second = 0\<rparr>,
           end_balance = Some (3138 / 25),
           end_date = Some \<lparr>year = 2015, month = 12, day = 31, hour = 0, minute = 0, second = 0\<rparr>,
           lines = []\<rparr> :: error + (rat, datetime) statement)"
  by (simp add: eur_document_properties balance_defs instance_defs)

text \<open>
  Claim C7, amended. When \<open>_parse_statement_properties\<close> succeeds, the opening and
  closing balance and date fields come from the entries coded \<open>OPBD\<close> and \<open>CLBD\<close>
  only: on a document whose statement element has lost every balance entry with another
  code, it succeeds with the same record.
\<close>

theorem other_balance_codes_dropped:
  assumes stmt: "et_find tree [qname ns ''BkToCstmrStmt'', qname ns ''Stmt''] = Some stmt"
    and stmt': "et_find tree' [qname ns ''BkToCstmrStmt'', qname ns ''Stmt''] = Some stmt'"
    and ch: "children stmt' = filter (\<lambda>e. \<not> other_balance ns e) (children stmt)"
    and ok: "parse_statement_properties pyfloat strptime ns tree st = Inr st'"
  shows "parse_statement_properties pyfloat strptime ns tree' st = Inr st'"
proof -
  have ac: "account_currency ns stmt' = account_currency ns stmt"
    by (simp add: account_currency_def et_find_children_filter [OF ch])
  then have eff: "effective_currency ns stmt' (currency st) =
      effective_currency ns stmt (currency st)"
    by (simp add: effective_currency_def)
  have cur: "truthy (account_currency ns stmt) \<or> currency st \<noteq> None"
    using parse_statement_properties_Inr [OF ok stmt] by blast
  then have cur': "truthy (account_currency ns stmt') \<or> currency st \<noteq> None"
    by (simp add: ac)
  note paths = et_find_children_filter [OF ch, of "''Acct''", simplified]
  note bals = et_findall_children_filter(2) [OF ch]
  note eq = ok [unfolded parse_statement_properties_stmt [OF stmt cur]]
  from eq obtain A D where
    loop: "bal_loop pyfloat strptime ns (effective_currency ns stmt (currency st))
        (et_findall stmt [qname ns ''Bal'']) [] [] = Inr (A, D)"
    by (auto split: sum.splits)
  from bal_loop_drop_other [OF loop, of "[]" "[]"] obtain A1 D1 where
    loop': "bal_loop pyfloat strptime ns (effective_currency ns stmt (currency st))
        (filter (\<lambda>b. \<not> other_balance ns b) (et_findall stmt [qname ns ''Bal''])) [] [] =
        Inr (A1, D1)"
    and same: "same_balances A1 A" "same_balances D1 D"
    by (auto simp: same_balances_def)
  from same have m:
    "map_of A1 (Some ''OPBD'') = map_of A (Some ''OPBD'')"
    "map_of A1 (Some ''CLBD'') = map_of A (Some ''CLBD'')"
    "map_of D1 (Some ''OPBD'') = map_of D (Some ''OPBD'')"
    "map_of D1 (Some ''CLBD'') = map_of D (Some ''CLBD'')"
    by (simp_all add: same_balances_def)
  from eq [unfolded loop] obtain sb where sb: "map_of A (Some ''OPBD'') = Some sb"
    by (auto split: if_splits option.splits)
  with m(1) have "map_of A1 (Some ''OPBD'') = Some sb" by simp
  then have ne: "A1 \<noteq> []" by auto
  from eq [unfolded loop] have "A \<noteq> []" by (auto split: if_splits)
  with eq [unfolded loop] ne show ?thesis
    unfolding parse_statement_properties_stmt [OF stmt' cur'] eff bals loop' paths
    by (simp add: m cong: option.case_cong)
qed

lemma sample_with_other_code:
  "parse_statement_properties decimal_float iso_strptime NS
     (document [sample_account (Some ''EUR''),
        balance ''ITBD'' ''EUR'' ''10.00'' ''2015-12-15'',
        balance ''OPBD'' ''EUR'' ''306.53'' ''2015-12-01'',
        balance ''CLBD'' ''EUR'' ''125.52'' ''2015-12-31''])
     (new_Statement\<lparr>currency := None\<rparr>) =
     (Inr \<lparr>currency = Some ''EUR'', bank_id = Some ''AGBLLT2XXXX'',
           account_id = Some ''LT000000000000000000'', start_balance = Some (30653 / 100),
           start_date = Some \<lparr>year = 2015, month = 12, day = 1, hour = 0, minute = 0, second = 0\<rparr>,
           end_balance = Some (3138 / 25),
           end_date = Some \<lparr>year = 2015, month = 12, day = 31, hour = 0, minute = 0, second = 0\<rparr>,
           lines = []\<rparr> :: error + (rat, datetime) statement)"
  by (simp add: eur_document_properties balance_defs instance_defs)

theorem other_balance_codes_dropped_witness:
  "children (node ''Stmt'' [sample_account (Some ''EUR''),
        balance ''OPBD'' ''EUR'' ''306.53'' ''2015-12-01'',
        balance ''CLBD'' ''EUR'' ''125.52'' ''2015-12-31'']) =
   filter (\<lambda>e. \<not> other_balance NS e)
     (children (node ''Stmt'' [sample_account (Some ''EUR''),
        balance ''ITBD'' ''EUR'' ''10.00'' ''2015-12-15'',
        balance ''OPBD'' ''EUR'' ''306.53'' ''2015-12-01'',
        balance ''CLBD'' ''EUR'' ''125.52'' ''2015-12-31''])) \<and>
   parse_statement_properties decimal_float iso_strptime NS
     (document [sample_account (Some ''EUR''),
        balance ''OPBD'' ''EUR'' ''306.53'' ''2015-12-01'',
        balance ''CLBD'' ''EUR'' ''125.52'' ''2015-12-31''])
     (new_Statement\<lparr>currency := None\<rparr>) =
   parse_statement_properties decimal_float iso_strptime NS
     (document [sample_account (Some ''EUR''),
        balance ''ITBD'' ''EUR'' ''10.00'' ''2015-12-15'',
        balance ''OPBD'' ''EUR'' ''306.53'' ''2015-12-01'',
        balance ''CLBD'' ''EUR'' ''125.52'' ''2015-12-31''])
     (new_Statement\<lparr>currency := None\<rparr>) \<and>
   parse_statement_properties decimal_float iso_strptime NS
     (document [sample_account (Some ''EUR''),
        balance ''ITBD'' ''EUR'' ''10.00'' ''2015-12-15'',
        balance ''OPBD'' ''EUR'' ''306.53'' ''2015-12-01'',
        balance ''CLBD'' ''EUR'' ''125.52'' ''2015-12-31''])
     (new_Statement\<lparr>currency := None\<rparr>) =
     (Inr \<lparr>currency = Some ''EUR'', bank_id = Some ''AGBLLT2XXXX'',
           account_id = Some ''LT000000000000000000'', start_balance = Some (30653 / 100),
           start_date = Some \<lparr>year = 2015, month = 12, day = 1, hour = 0, minute = 0, second = 0\<rparr>,
           end_balance = Some (3138 / 25),
           end_date = Some \<lparr>year = 2015, month = 12, day = 31, hour = 0, minute = 0, second = 0\<rparr>,
           lines = []\<rparr> :: error + (rat, datetime) statement)"
proof -
  have ch: "children (node ''Stmt'' [sample_account (Some ''EUR''),
        balance ''OPBD'' ''EUR'' ''306.53'' ''2015-12-01'',
        balance ''CLBD'' ''EUR'' ''125.52'' ''2015-12-31'']) =
   filter (\<lambda>e. \<not> other_balance NS e)
     (children (node ''Stmt'' [sample_account (Some ''EUR''),
        balance ''ITBD'' ''EUR'' ''10.00'' ''2015-12-15'',
        balance ''OPBD'' ''EUR'' ''306.53'' ''2015-12-01'',
        balance ''CLBD'' ''EUR'' ''125.52'' ''2015-12-31'']))"
    by (simp add: other_balance_def sample_defs et_find_def qname_eq_iff)
  from other_balance_codes_dropped [OF document_stmt document_stmt ch sample_with_other_code]
    ch sample_with_other_code
  show ?thesis by simp
qed

end
